theory Spec2Isabelle
  imports Complex_Main
begin

section \<open>The numbers of the program\<close>

text \<open>
  Every component of a vector is a TypeScript \<open>number\<close>, a double. The model keeps the
  special values the source tests for (\<open>Infinity\<close>, \<open>-Infinity\<close>, \<open>NaN\<close>); a finite
  number is a real. A sum, product, quotient or square root whose exact value reaches
  \<open>2^1024 - 2^970\<close> in magnitude is \<open>Infinity\<close> or \<open>-Infinity\<close>, as it is for doubles
  rounded to nearest; below that bound the result is the exact value, so the rounding of
  a result to 53 bits and the underflow of a tiny result to zero are outside the model.
  The theorems below therefore do not depend on how a result is rounded: each one either
  holds whatever the finite results are (it names them through the operations of the
  program), or is about inputs on which every result is an integer below \<open>2^53\<close> or
  another value that a double holds exactly. \<open>Math.cos\<close>, \<open>Math.sin\<close> and
  \<open>Math.acos\<close> return the exact value, where the program has a double near it. The
  sign of zero is outside the model too:
  no function of the repository divides by a zero that it has not tested for first, so
  the sign of zero never decides a branch or a component up to \<open>==\<close>.
\<close>

datatype number = Fin real | Infinity | NegInfinity | NaN

text \<open>
  The finite result of an operation whose exact value is \<open>v\<close>, or the infinity it
  overflows to.
\<close>

definition overflow_threshold :: real where
  "overflow_threshold = 2 ^ 1024 - 2 ^ 970"

definition overflow :: "real \<Rightarrow> number" where
  "overflow v =
     (if overflow_threshold \<le> v then Infinity
      else if v \<le> - overflow_threshold then NegInfinity
      else Fin v)"

text \<open>\<open>isFinite(a)\<close>.\<close>

fun isFinite :: "number \<Rightarrow> bool" where
  "isFinite (Fin r) = True"
| "isFinite Infinity = False"
| "isFinite NegInfinity = False"
| "isFinite NaN = False"

text \<open>\<open>a == b\<close> and \<open>a === b\<close> on numbers: \<open>NaN\<close> equals nothing, itself included.\<close>

definition eq_number :: "number \<Rightarrow> number \<Rightarrow> bool" where
  "eq_number a b = (a = b \<and> a \<noteq> NaN)"

instantiation number :: uminus
begin

fun uminus_number :: "number \<Rightarrow> number" where
  "uminus_number (Fin r) = Fin (- r)"
| "uminus_number Infinity = NegInfinity"
| "uminus_number NegInfinity = Infinity"
| "uminus_number NaN = NaN"

instance ..

end

instantiation number :: plus
begin

fun plus_number :: "number \<Rightarrow> number \<Rightarrow> number" where
  "plus_number NaN b = NaN"
| "plus_number a NaN = NaN"
| "plus_number (Fin r) (Fin s) = overflow (r + s)"
| "plus_number (Fin r) Infinity = Infinity"
| "plus_number (Fin r) NegInfinity = NegInfinity"
| "plus_number Infinity (Fin s) = Infinity"
| "plus_number NegInfinity (Fin s) = NegInfinity"
| "plus_number Infinity Infinity = Infinity"
| "plus_number NegInfinity NegInfinity = NegInfinity"
| "plus_number Infinity NegInfinity = NaN"
| "plus_number NegInfinity Infinity = NaN"

instance ..

end

instantiation number :: minus
begin

definition minus_number :: "number \<Rightarrow> number \<Rightarrow> number" where
  "minus_number a b = a + (- b)"

instance ..

end

text \<open>The sign of an infinite product or quotient: \<open>Infinity\<close> when \<open>pos\<close>.\<close>

definition signed_inf :: "bool \<Rightarrow> number" where
  "signed_inf pos = (if pos then Infinity else NegInfinity)"

instantiation number :: times
begin

fun times_number :: "number \<Rightarrow> number \<Rightarrow> number" where
  "times_number NaN b = NaN"
| "times_number a NaN = NaN"
| "times_number (Fin r) (Fin s) = overflow (r * s)"
| "times_number (Fin r) Infinity = (if r = 0 then NaN else signed_inf (0 < r))"
| "times_number (Fin r) NegInfinity = (if r = 0 then NaN else signed_inf (r < 0))"
| "times_number Infinity (Fin s) = (if s = 0 then NaN else signed_inf (0 < s))"
| "times_number NegInfinity (Fin s) = (if s = 0 then NaN else signed_inf (s < 0))"
| "times_number Infinity Infinity = Infinity"
| "times_number NegInfinity NegInfinity = Infinity"
| "times_number Infinity NegInfinity = NegInfinity"
| "times_number NegInfinity Infinity = NegInfinity"

instance ..

end

instantiation number :: inverse
begin

text \<open>
  \<open>a / b\<close>. A zero divisor is read as \<open>+0\<close>; the modelled functions reach a division
  only behind a test that the divisor is not zero.
\<close>

fun divide_number :: "number \<Rightarrow> number \<Rightarrow> number" where
  "divide_number NaN b = NaN"
| "divide_number a NaN = NaN"
| "divide_number (Fin r) (Fin s) =
     (if s = 0 then (if r = 0 then NaN else signed_inf (0 < r)) else overflow (r / s))"
| "divide_number (Fin r) Infinity = Fin 0"
| "divide_number (Fin r) NegInfinity = Fin 0"
| "divide_number Infinity (Fin s) = signed_inf (0 \<le> s)"
| "divide_number NegInfinity (Fin s) = signed_inf (s < 0)"
| "divide_number Infinity Infinity = NaN"
| "divide_number NegInfinity NegInfinity = NaN"
| "divide_number Infinity NegInfinity = NaN"
| "divide_number NegInfinity Infinity = NaN"

definition inverse_number :: "number \<Rightarrow> number" where
  "inverse_number a = divide (Fin 1) a"

instance ..

end

instantiation number :: ord
begin

text \<open>\<open>a < b\<close>; a comparison with \<open>NaN\<close> is false. \<open>a > b\<close> is \<open>b < a\<close>.\<close>

fun less_number :: "number \<Rightarrow> number \<Rightarrow> bool" where
  "less_number NaN b = False"
| "less_number a NaN = False"
| "less_number (Fin r) (Fin s) = (r < s)"
| "less_number (Fin r) Infinity = True"
| "less_number (Fin r) NegInfinity = False"
| "less_number Infinity b = False"
| "less_number NegInfinity (Fin s) = True"
| "less_number NegInfinity Infinity = True"
| "less_number NegInfinity NegInfinity = False"

definition less_eq_number :: "number \<Rightarrow> number \<Rightarrow> bool" where
  "less_eq_number a b = (a < b \<or> eq_number a b)"

instance ..

end

text \<open>\<open>a ** 2\<close>.\<close>

fun sqr :: "number \<Rightarrow> number" where
  "sqr (Fin r) = overflow (r\<^sup>2)"
| "sqr Infinity = Infinity"
| "sqr NegInfinity = Infinity"
| "sqr NaN = NaN"

text \<open>\<open>a || 0\<close>: zero and \<open>NaN\<close> are the falsy numbers.\<close>

definition or_zero :: "number \<Rightarrow> number" where
  "or_zero a = (if a = Fin 0 \<or> a = NaN then Fin 0 else a)"

subsection \<open>The functions of \<open>Math\<close> the source calls\<close>

text \<open>\<open>Math.min\<close> and \<open>Math.max\<close> of two numbers: \<open>NaN\<close> if either is.\<close>

definition Math_min :: "number \<Rightarrow> number \<Rightarrow> number" where
  "Math_min a b = (if a = NaN \<or> b = NaN then NaN else if a < b then a else b)"

definition Math_max :: "number \<Rightarrow> number \<Rightarrow> number" where
  "Math_max a b = (if a = NaN \<or> b = NaN then NaN else if b < a then a else b)"

text \<open>
  \<open>Math.hypot\<close> of three numbers: \<open>Infinity\<close> if any is infinite (also beside a
  \<open>NaN\<close>), otherwise \<open>NaN\<close> if any is \<open>NaN\<close>, otherwise the square root of the sum of
  the squares. The squares themselves do not overflow (\<open>Math.hypot\<close> scales its
  arguments); the root does when it reaches the bound.
\<close>

definition is_inf :: "number \<Rightarrow> bool" where
  "is_inf a = (a = Infinity \<or> a = NegInfinity)"

fun the_real :: "number \<Rightarrow> real" where
  "the_real (Fin r) = r"
| "the_real Infinity = 0"
| "the_real NegInfinity = 0"
| "the_real NaN = 0"

definition Math_hypot :: "number \<Rightarrow> number \<Rightarrow> number \<Rightarrow> number" where
  "Math_hypot a b c =
     (if is_inf a \<or> is_inf b \<or> is_inf c then Infinity
      else if a = NaN \<or> b = NaN \<or> c = NaN then NaN
      else overflow (sqrt ((the_real a)\<^sup>2 + (the_real b)\<^sup>2 + (the_real c)\<^sup>2)))"

fun Math_cos :: "number \<Rightarrow> number" where
  "Math_cos (Fin r) = Fin (cos r)"
| "Math_cos Infinity = NaN"
| "Math_cos NegInfinity = NaN"
| "Math_cos NaN = NaN"

fun Math_sin :: "number \<Rightarrow> number" where
  "Math_sin (Fin r) = Fin (sin r)"
| "Math_sin Infinity = NaN"
| "Math_sin NegInfinity = NaN"
| "Math_sin NaN = NaN"

fun Math_acos :: "number \<Rightarrow> number" where
  "Math_acos (Fin r) = (if - 1 \<le> r \<and> r \<le> 1 then Fin (arccos r) else NaN)"
| "Math_acos Infinity = NaN"
| "Math_acos NegInfinity = NaN"
| "Math_acos NaN = NaN"

definition Math_PI :: number where
  "Math_PI = Fin pi"

section \<open>The class \<open>Vector\<close>\<close>

text \<open>
  A \<open>Vector\<close> object has three mutable fields. Objects live in a store: a list of
  records, an object reference being its index. \<open>new Vector(...)\<close> appends a record and
  returns the new index, so a reference is to a fresh object exactly when it is not below
  the length of the store before the call. A method that returns \<open>this\<close> returns the
  receiver's reference together with the updated store.
\<close>

record Vector =
  x :: number
  y :: number
  z :: number

type_synonym ref = nat

type_synonym heap = "Vector list"

text \<open>A parameter of type \<open>Vector | number\<close>.\<close>

datatype arg = Vec ref | Num number

text \<open>A parameter with a default value: \<open>None\<close> is the argument left out.\<close>

definition dflt :: "number option \<Rightarrow> number \<Rightarrow> number" where
  "dflt a d = (case a of None \<Rightarrow> d | Some v \<Rightarrow> v)"

text \<open>The assignments \<open>r.x = n\<close>, \<open>r.y = n\<close> and \<open>r.z = n\<close>.\<close>

definition set_x :: "heap \<Rightarrow> ref \<Rightarrow> number \<Rightarrow> heap" where
  "set_x h r n = h[r := (h ! r)\<lparr>x := n\<rparr>]"

definition set_y :: "heap \<Rightarrow> ref \<Rightarrow> number \<Rightarrow> heap" where
  "set_y h r n = h[r := (h ! r)\<lparr>y := n\<rparr>]"

definition set_z :: "heap \<Rightarrow> ref \<Rightarrow> number \<Rightarrow> heap" where
  "set_z h r n = h[r := (h ! r)\<lparr>z := n\<rparr>]"

text \<open>\<open>constructor(x = 0, y = 0, z = 0)\<close>.\<close>

definition new_Vector ::
  "heap \<Rightarrow> number option \<Rightarrow> number option \<Rightarrow> number option \<Rightarrow> ref \<times> heap" where
  "new_Vector h x0 y0 z0 =
     (length h, h @ [\<lparr>x = dflt x0 (Fin 0), y = dflt y0 (Fin 0), z = dflt z0 (Fin 0)\<rparr>])"

definition Vector_add ::
  "heap \<Rightarrow> ref \<Rightarrow> arg \<Rightarrow> number option \<Rightarrow> number option \<Rightarrow> ref \<times> heap" where
  "Vector_add h this x0 y0 z0 =
     (case x0 of
        Num n \<Rightarrow>
          (let h1 = set_x h this (x (h ! this) + n);
               h2 = set_y h1 this (y (h1 ! this) + dflt y0 (Fin 0));
               h3 = set_z h2 this (z (h2 ! this) + dflt z0 (Fin 0))
           in (this, h3))
      | Vec v \<Rightarrow>
          (let h1 = set_x h this (x (h ! this) + x (h ! v));
               h2 = set_y h1 this (y (h1 ! this) + y (h1 ! v));
               h3 = set_z h2 this (z (h2 ! this) + z (h2 ! v))
           in (this, h3)))"

definition Vector_sub ::
  "heap \<Rightarrow> ref \<Rightarrow> arg \<Rightarrow> number option \<Rightarrow> number option \<Rightarrow> ref \<times> heap" where
  "Vector_sub h this x0 y0 z0 =
     (case x0 of
        Num n \<Rightarrow>
          (let h1 = set_x h this (x (h ! this) - n);
               h2 = set_y h1 this (y (h1 ! this) - dflt y0 (Fin 0));
               h3 = set_z h2 this (z (h2 ! this) - dflt z0 (Fin 0))
           in (this, h3))
      | Vec v \<Rightarrow>
          (let h1 = set_x h this (x (h ! this) - x (h ! v));
               h2 = set_y h1 this (y (h1 ! this) - y (h1 ! v));
               h3 = set_z h2 this (z (h2 ! this) - z (h2 ! v))
           in (this, h3)))"

definition Vector_mult :: "heap \<Rightarrow> ref \<Rightarrow> number \<Rightarrow> ref \<times> heap" where
  "Vector_mult h this factor =
     (if \<not> isFinite factor then (this, h)
      else
        (let h1 = set_x h this (x (h ! this) * factor);
             h2 = set_y h1 this (y (h1 ! this) * factor);
             h3 = set_z h2 this (z (h2 ! this) * factor)
         in (this, h3)))"

definition Vector_div :: "heap \<Rightarrow> ref \<Rightarrow> number \<Rightarrow> ref \<times> heap" where
  "Vector_div h this divisor =
     (if \<not> isFinite divisor \<or> eq_number divisor (Fin 0) then (this, h)
      else
        (let h1 = set_x h this (x (h ! this) / divisor);
             h2 = set_y h1 this (y (h1 ! this) / divisor);
             h3 = set_z h2 this (z (h2 ! this) / divisor)
         in (this, h3)))"

text \<open>The parameters \<open>y\<close> and \<open>z\<close> of \<open>set\<close> are declared and never read.\<close>

definition Vector_set ::
  "heap \<Rightarrow> ref \<Rightarrow> arg \<Rightarrow> number option \<Rightarrow> number option \<Rightarrow> ref \<times> heap" where
  "Vector_set h this x0 y0 z0 =
     (case x0 of
        Vec v \<Rightarrow>
          (let h1 = set_x h this (x (h ! v));
               h2 = set_y h1 this (y (h1 ! v));
               h3 = set_z h2 this (z (h2 ! v))
           in (this, h3))
      | Num n \<Rightarrow>
          (let h1 = set_x h this n;
               h2 = set_y h1 this n;
               h3 = set_z h2 this n
           in (this, h3)))"

definition Vector_copy :: "heap \<Rightarrow> ref \<Rightarrow> ref \<times> heap" where
  "Vector_copy h this =
     new_Vector h (Some (x (h ! this))) (Some (y (h ! this))) (Some (z (h ! this)))"

definition Vector_magSq :: "heap \<Rightarrow> ref \<Rightarrow> number" where
  "Vector_magSq h this =
     x (h ! this) * x (h ! this) + y (h ! this) * y (h ! this) + z (h ! this) * z (h ! this)"

definition Vector_mag :: "heap \<Rightarrow> ref \<Rightarrow> number" where
  "Vector_mag h this = Math_hypot (x (h ! this)) (y (h ! this)) (z (h ! this))"

definition Vector_normalize :: "heap \<Rightarrow> ref \<Rightarrow> ref \<times> heap" where
  "Vector_normalize h this =
     (let mag = Math_hypot (x (h ! this)) (y (h ! this)) (z (h ! this))
      in if eq_number mag (Fin 0)
         then Vector_set h this (Num (Fin 0)) (Some (Fin 0)) (Some (Fin 0))
         else Vector_div h this mag)"

definition Vector_setMag :: "heap \<Rightarrow> ref \<Rightarrow> number \<Rightarrow> ref \<times> heap" where
  "Vector_setMag h this mag =
     (let (r, h1) = Vector_div h this (Vector_mag h this) in Vector_mult h1 r mag)"

text \<open>\<open>max\<close> and \<open>min\<close> allocate nothing: they return one of the two references.\<close>

definition Vector_max :: "heap \<Rightarrow> ref \<Rightarrow> ref \<Rightarrow> ref" where
  "Vector_max h this vector = (if Vector_mag h this > Vector_mag h vector then this else vector)"

definition Vector_min :: "heap \<Rightarrow> ref \<Rightarrow> ref \<Rightarrow> ref" where
  "Vector_min h this vector = (if Vector_mag h this < Vector_mag h vector then this else vector)"

definition Vector_equals :: "heap \<Rightarrow> ref \<Rightarrow> ref \<Rightarrow> bool" where
  "Vector_equals h this vector =
     (eq_number (x (h ! this)) (x (h ! vector)) \<and> eq_number (y (h ! this)) (y (h ! vector))
      \<and> eq_number (z (h ! this)) (z (h ! vector)))"

definition Vector_dist :: "heap \<Rightarrow> ref \<Rightarrow> ref \<Rightarrow> number" where
  "Vector_dist h this vector =
     Math_hypot (x (h ! this) - x (h ! vector)) (y (h ! this) - y (h ! vector))
       (z (h ! this) - z (h ! vector))"

definition Vector_distSq :: "heap \<Rightarrow> ref \<Rightarrow> ref \<Rightarrow> number" where
  "Vector_distSq h this vector =
     sqr (Math_hypot (x (h ! this) - x (h ! vector)) (y (h ! this) - y (h ! vector))
       (z (h ! this) - z (h ! vector)))"

definition Vector_cross :: "heap \<Rightarrow> ref \<Rightarrow> ref \<Rightarrow> ref \<times> heap" where
  "Vector_cross h this vector =
     new_Vector h
       (Some (y (h ! this) * z (h ! vector) - z (h ! this) * y (h ! vector)))
       (Some (z (h ! this) * x (h ! vector) - x (h ! this) * z (h ! vector)))
       (Some (x (h ! this) * y (h ! vector) - y (h ! this) * x (h ! vector)))"

definition Vector_dot :: "heap \<Rightarrow> ref \<Rightarrow> ref \<Rightarrow> number" where
  "Vector_dot h this vector =
     x (h ! this) * x (h ! vector) + y (h ! this) * y (h ! vector)
       + z (h ! this) * z (h ! vector)"

definition Vector_maxMag :: "heap \<Rightarrow> ref \<Rightarrow> number \<Rightarrow> ref \<times> heap" where
  "Vector_maxMag h this mag =
     (let currentMag = Math_hypot (x (h ! this)) (y (h ! this)) (z (h ! this))
      in if currentMag > mag
         then (let (r, h1) = Vector_div h this currentMag in Vector_mult h1 r mag)
         else (this, h))"

definition Vector_minMag :: "heap \<Rightarrow> ref \<Rightarrow> number \<Rightarrow> ref \<times> heap" where
  "Vector_minMag h this mag =
     (let currentMag = Math_hypot (x (h ! this)) (y (h ! this)) (z (h ! this))
      in if currentMag < mag
         then (let (r, h1) = Vector_div h this currentMag in Vector_mult h1 r mag)
         else (this, h))"

definition Vector_constrainMag :: "heap \<Rightarrow> ref \<Rightarrow> number \<Rightarrow> number \<Rightarrow> ref \<times> heap" where
  "Vector_constrainMag h this min0 max0 =
     (let mag = Math_hypot (x (h ! this)) (y (h ! this)) (z (h ! this))
      in if mag < min0
         then (let (r, h1) = Vector_div h this mag in Vector_mult h1 r min0)
         else if mag > max0
         then (let (r, h1) = Vector_div h this mag in Vector_mult h1 r max0)
         else (this, h))"

definition Vector_toArray :: "heap \<Rightarrow> ref \<Rightarrow> number list" where
  "Vector_toArray h this = [x (h ! this), y (h ! this), z (h ! this)]"

text \<open>
  A basis vector left out is a default parameter: \<open>new Vector(1)\<close>, \<open>new Vector(0, 1)\<close>
  or \<open>new Vector(0, 0, 1)\<close> is allocated at the call.
\<close>

definition basis_args ::
  "heap \<Rightarrow> ref option \<Rightarrow> ref option \<Rightarrow> ref option \<Rightarrow> (ref \<times> ref \<times> ref) \<times> heap" where
  "basis_args h vi vj vk =
     (let (i, h1) = (case vi of Some r \<Rightarrow> (r, h)
                     | None \<Rightarrow> new_Vector h (Some (Fin 1)) None None);
          (j, h2) = (case vj of Some r \<Rightarrow> (r, h1)
                     | None \<Rightarrow> new_Vector h1 (Some (Fin 0)) (Some (Fin 1)) None);
          (k, h3) = (case vk of Some r \<Rightarrow> (r, h2)
                     | None \<Rightarrow> new_Vector h2 (Some (Fin 0)) (Some (Fin 0)) (Some (Fin 1)))
      in ((i, j, k), h3))"

definition Vector_changeOfBasis ::
  "heap \<Rightarrow> ref \<Rightarrow> ref option \<Rightarrow> ref option \<Rightarrow> ref option \<Rightarrow> ref \<times> heap" where
  "Vector_changeOfBasis h0 this vi vj vk =
     (let ((i, j, k), h) = basis_args h0 vi vj vk;
          x1 = x (h ! this); y1 = y (h ! this); z1 = z (h ! this);
          h1 = set_x h this (x1 * x (h ! i) + y1 * x (h ! j) + z1 * x (h ! k));
          h2 = set_y h1 this (x1 * y (h1 ! i) + y1 * y (h1 ! j) + z1 * y (h1 ! k));
          h3 = set_z h2 this (x1 * z (h2 ! i) + y1 * z (h2 ! j) + z1 * z (h2 ! k))
      in (this, h3))"

definition Vector_lerp :: "heap \<Rightarrow> ref \<Rightarrow> ref \<Rightarrow> number \<Rightarrow> ref \<times> heap" where
  "Vector_lerp h this vector alpha =
     (let internAplha = Math_min (Math_max alpha (Fin 0)) (Fin 1);
          h1 = set_x h this (x (h ! this) + (x (h ! vector) - x (h ! this)) * internAplha);
          h2 = set_y h1 this (y (h1 ! this) + (y (h1 ! vector) - y (h1 ! this)) * internAplha);
          h3 = set_z h2 this (z (h2 ! this) + (z (h2 ! vector) - z (h2 ! this)) * internAplha)
      in (this, h3))"

definition Vector_angleBetween :: "heap \<Rightarrow> ref \<Rightarrow> ref \<Rightarrow> number" where
  "Vector_angleBetween h this vector =
     (let magMult = Vector_mag h this * Vector_mag h vector
      in if eq_number magMult (Fin 0) then Fin 0
         else (let dotOverMag = Vector_dot h this vector / magMult
               in Math_acos (Math_max (Math_min dotOverMag (Fin 1)) (- Fin 1))))"

definition Vector_rotate :: "heap \<Rightarrow> ref \<Rightarrow> number \<Rightarrow> ref \<times> heap" where
  "Vector_rotate h this angle =
     (let cosOfAngle = Math_cos angle; sinOfAngle = Math_sin angle; x1 = x (h ! this);
          h1 = set_x h this (or_zero (x1 * cosOfAngle + y (h ! this) * - sinOfAngle));
          h2 = set_y h1 this (or_zero (x1 * sinOfAngle + y (h1 ! this) * cosOfAngle))
      in (this, h2))"

definition Vector_rotateX :: "heap \<Rightarrow> ref \<Rightarrow> number \<Rightarrow> ref \<times> heap" where
  "Vector_rotateX h this angle =
     (let cosOfAngle = Math_cos angle; sinOfAngle = Math_sin angle; y1 = y (h ! this);
          h1 = set_y h this (or_zero (y1 * cosOfAngle + z (h ! this) * - sinOfAngle));
          h2 = set_z h1 this (or_zero (y1 * sinOfAngle + z (h1 ! this) * cosOfAngle))
      in (this, h2))"

definition Vector_rotateY :: "heap \<Rightarrow> ref \<Rightarrow> number \<Rightarrow> ref \<times> heap" where
  "Vector_rotateY h this angle =
     (let cosOfAngle = Math_cos angle; sinOfAngle = Math_sin angle; x1 = x (h ! this);
          h1 = set_x h this (or_zero (x1 * cosOfAngle + z (h ! this) * sinOfAngle));
          h2 = set_z h1 this (or_zero (x1 * - sinOfAngle + z (h1 ! this) * cosOfAngle))
      in (this, h2))"

text \<open>
  \<open>heading\<close> and \<open>heading3D\<close> only read the receiver and return angles computed by
  \<open>Math.atan2\<close>; no statement below is about them and they are not modelled.
\<close>

section \<open>The free functions of \<open>src/vectorFunctions.ts\<close>\<close>

text \<open>
  The class and the two modules of free functions use the same names. A method \<open>m\<close> of
  the class is \<open>Vector_m\<close>, a function \<open>f\<close> of \<open>src/vectorFunctions.ts\<close> is \<open>f_fn\<close>, and
  the function \<open>f\<close> of the second module (the unnamed source file \<open>part_001\<close>, which
  also exports the class and the constants) is \<open>f_p1\<close>. A function that returns a
  vector returns the reference of the object it allocates and the extended store; a
  function that returns a number, a boolean or an array has no assignment and no call of
  a mutating method in its body, so it reads the store and returns the value alone.
  \<open>angleBetween\<close> falls off its end when the product of the magnitudes is zero: its
  result is \<open>undefined\<close>, here \<open>None\<close>.
\<close>

definition add_fn ::
  "heap \<Rightarrow> ref \<Rightarrow> arg \<Rightarrow> number option \<Rightarrow> number option \<Rightarrow> ref \<times> heap" where
  "add_fn h vector x0 y0 z0 =
     (case x0 of
        Vec v \<Rightarrow>
          new_Vector h (Some (x (h ! vector) + x (h ! v))) (Some (y (h ! vector) + y (h ! v)))
            (Some (z (h ! vector) + z (h ! v)))
      | Num n \<Rightarrow>
          new_Vector h (Some (x (h ! vector) + n)) (Some (y (h ! vector) + dflt y0 (Fin 0)))
            (Some (z (h ! vector) + dflt z0 (Fin 0))))"

definition sub_fn ::
  "heap \<Rightarrow> ref \<Rightarrow> arg \<Rightarrow> number option \<Rightarrow> number option \<Rightarrow> ref \<times> heap" where
  "sub_fn h vector x0 y0 z0 =
     (case x0 of
        Vec v \<Rightarrow>
          new_Vector h (Some (x (h ! vector) - x (h ! v))) (Some (y (h ! vector) - y (h ! v)))
            (Some (z (h ! vector) - z (h ! v)))
      | Num n \<Rightarrow>
          new_Vector h (Some (x (h ! vector) - n)) (Some (y (h ! vector) - dflt y0 (Fin 0)))
            (Some (z (h ! vector) - dflt z0 (Fin 0))))"

definition mult_fn :: "heap \<Rightarrow> ref \<Rightarrow> number \<Rightarrow> ref \<times> heap" where
  "mult_fn h vector factor =
     (if isFinite factor
      then new_Vector h (Some (x (h ! vector) * factor)) (Some (y (h ! vector) * factor))
             (Some (z (h ! vector) * factor))
      else new_Vector h (Some (x (h ! vector))) (Some (y (h ! vector))) (Some (z (h ! vector))))"

definition div_fn :: "heap \<Rightarrow> ref \<Rightarrow> number \<Rightarrow> ref \<times> heap" where
  "div_fn h vector divisor =
     (if \<not> eq_number divisor (Fin 0) \<and> isFinite divisor
      then (let inverse0 = Fin 1 / divisor
            in new_Vector h (Some (x (h ! vector) * inverse0)) (Some (y (h ! vector) * inverse0))
                 (Some (z (h ! vector) * inverse0)))
      else new_Vector h (Some (x (h ! vector))) (Some (y (h ! vector))) (Some (z (h ! vector))))"

definition normalize_fn :: "heap \<Rightarrow> ref \<Rightarrow> ref \<times> heap" where
  "normalize_fn h vector =
     div_fn h vector (Math_hypot (x (h ! vector)) (y (h ! vector)) (z (h ! vector)))"

definition setMag_fn :: "heap \<Rightarrow> ref \<Rightarrow> number \<Rightarrow> ref \<times> heap" where
  "setMag_fn h vector mag =
     (let (r, h1) = div_fn h vector (Math_hypot (x (h ! vector)) (y (h ! vector)) (z (h ! vector)))
      in Vector_mult h1 r mag)"

definition max_fn :: "heap \<Rightarrow> ref \<Rightarrow> ref \<Rightarrow> ref \<times> heap" where
  "max_fn h vector otherVector =
     (if Vector_mag h vector > Vector_mag h otherVector then Vector_copy h vector
      else Vector_copy h otherVector)"

definition min_fn :: "heap \<Rightarrow> ref \<Rightarrow> ref \<Rightarrow> ref \<times> heap" where
  "min_fn h vector otherVector =
     (if Vector_mag h vector < Vector_mag h otherVector then Vector_copy h vector
      else Vector_copy h otherVector)"

definition equals_fn :: "heap \<Rightarrow> ref \<Rightarrow> ref \<Rightarrow> bool" where
  "equals_fn h vector otherVector =
     (eq_number (x (h ! vector)) (x (h ! otherVector))
      \<and> eq_number (y (h ! vector)) (y (h ! otherVector))
      \<and> eq_number (z (h ! vector)) (z (h ! otherVector)))"

definition dist_fn :: "heap \<Rightarrow> ref \<Rightarrow> ref \<Rightarrow> number" where
  "dist_fn h vector otherVector =
     Math_hypot (x (h ! vector) - x (h ! otherVector)) (y (h ! vector) - y (h ! otherVector))
       (z (h ! vector) - z (h ! otherVector))"

definition distSq_fn :: "heap \<Rightarrow> ref \<Rightarrow> ref \<Rightarrow> number" where
  "distSq_fn h vector otherVector =
     sqr (Math_hypot (x (h ! vector) - x (h ! otherVector))
       (y (h ! vector) - y (h ! otherVector)) (z (h ! vector) - z (h ! otherVector)))"

definition cross_fn :: "heap \<Rightarrow> ref \<Rightarrow> ref \<Rightarrow> ref \<times> heap" where
  "cross_fn h vector otherVector =
     new_Vector h
       (Some (y (h ! vector) * z (h ! otherVector) - z (h ! vector) * y (h ! otherVector)))
       (Some (z (h ! vector) * x (h ! otherVector) - x (h ! vector) * z (h ! otherVector)))
       (Some (x (h ! vector) * y (h ! otherVector) - y (h ! vector) * x (h ! otherVector)))"

definition dot_fn :: "heap \<Rightarrow> ref \<Rightarrow> ref \<Rightarrow> number" where
  "dot_fn h vector otherVector =
     x (h ! vector) * x (h ! otherVector) + y (h ! vector) * y (h ! otherVector)
       + z (h ! vector) * z (h ! otherVector)"

definition toArray_fn :: "heap \<Rightarrow> ref \<Rightarrow> number list" where
  "toArray_fn h vector = [x (h ! vector), y (h ! vector), z (h ! vector)]"

definition changeOfBasis_fn ::
  "heap \<Rightarrow> ref \<Rightarrow> ref option \<Rightarrow> ref option \<Rightarrow> ref option \<Rightarrow> ref \<times> heap" where
  "changeOfBasis_fn h0 vector vi vj vk =
     (let ((i, j, k), h) = basis_args h0 vi vj vk
      in new_Vector h
           (Some (x (h ! vector) * x (h ! i) + y (h ! vector) * x (h ! j) + z (h ! vector) * x (h ! k)))
           (Some (x (h ! vector) * y (h ! i) + y (h ! vector) * y (h ! j) + z (h ! vector) * y (h ! k)))
           (Some (x (h ! vector) * z (h ! i) + y (h ! vector) * z (h ! j) + z (h ! vector) * z (h ! k))))"

definition lerp_fn :: "heap \<Rightarrow> ref \<Rightarrow> ref \<Rightarrow> number \<Rightarrow> ref \<times> heap" where
  "lerp_fn h vector otherVector alpha =
     new_Vector h
       (Some (x (h ! vector) + (x (h ! otherVector) - x (h ! vector)) * alpha))
       (Some (y (h ! vector) + (y (h ! otherVector) - y (h ! vector)) * alpha))
       (Some (z (h ! vector) + (z (h ! otherVector) - z (h ! vector)) * alpha))"

definition angleBetween_fn :: "heap \<Rightarrow> ref \<Rightarrow> ref \<Rightarrow> number option" where
  "angleBetween_fn h vector otherVector =
     (let magMult = Vector_mag h vector * Vector_mag h otherVector
      in if \<not> eq_number magMult (Fin 0)
         then (let dotOverMag = Vector_dot h vector otherVector / magMult
               in Some (Math_acos (Math_max (Math_min dotOverMag (Fin 1)) (- Fin 1))))
         else None)"

definition rotate_fn :: "heap \<Rightarrow> ref \<Rightarrow> number \<Rightarrow> ref \<times> heap" where
  "rotate_fn h vector angle =
     (let cosOfAngle = Math_cos angle; sinOfAngle = Math_sin angle
      in new_Vector h
           (Some (x (h ! vector) * cosOfAngle + y (h ! vector) * - sinOfAngle))
           (Some (x (h ! vector) * sinOfAngle + y (h ! vector) * cosOfAngle))
           (Some (z (h ! vector))))"

definition rotateX_fn :: "heap \<Rightarrow> ref \<Rightarrow> number \<Rightarrow> ref \<times> heap" where
  "rotateX_fn h vector angle =
     (let cosOfAngle = Math_cos angle; sinOfAngle = Math_sin angle
      in new_Vector h
           (Some (x (h ! vector)))
           (Some (y (h ! vector) * cosOfAngle + z (h ! vector) * - sinOfAngle))
           (Some (y (h ! vector) * sinOfAngle + z (h ! vector) * cosOfAngle)))"

definition rotateY_fn :: "heap \<Rightarrow> ref \<Rightarrow> number \<Rightarrow> ref \<times> heap" where
  "rotateY_fn h vector angle =
     (let cosOfAngle = Math_cos angle; sinOfAngle = Math_sin angle
      in new_Vector h
           (Some (x (h ! vector) * cosOfAngle + z (h ! vector) * sinOfAngle))
           (Some (y (h ! vector)))
           (Some (x (h ! vector) * - sinOfAngle + z (h ! vector) * cosOfAngle)))"

definition fromAngle_fn :: "heap \<Rightarrow> number \<Rightarrow> ref \<times> heap" where
  "fromAngle_fn h angle = new_Vector h (Some (Math_cos angle)) (Some (Math_sin angle)) None"

definition fromAngles_fn :: "heap \<Rightarrow> number \<Rightarrow> number \<Rightarrow> ref \<times> heap" where
  "fromAngles_fn h polar azimuth =
     new_Vector h
       (Some (Math_sin azimuth * Math_cos polar))
       (Some (Math_sin azimuth * Math_sin polar))
       (Some (Math_cos azimuth))"

text \<open>The values that the calls of \<open>Math.random()\<close> return are parameters.\<close>

definition random2D_fn :: "heap \<Rightarrow> number \<Rightarrow> ref \<times> heap" where
  "random2D_fn h rnd = fromAngle_fn h (rnd * Math_PI * Fin 2)"

definition random3D_fn :: "heap \<Rightarrow> number \<Rightarrow> number \<Rightarrow> ref \<times> heap" where
  "random3D_fn h rnd1 rnd2 = fromAngles_fn h (rnd1 * Math_PI * Fin 2) (rnd2 * Math_PI * Fin 2)"

definition scalarProyection_fn :: "heap \<Rightarrow> ref \<Rightarrow> ref \<Rightarrow> ref \<Rightarrow> ref \<times> heap" where
  "scalarProyection_fn h vertex vector otherVector =
     (let (vertexVector, h1) = sub_fn h vector (Vec vertex) None None;
          (vertexOtherVector, h2) = sub_fn h1 otherVector (Vec vertex) None None;
          (r3, h3) = Vector_normalize h2 vertexVector;
          (r4, h4) = Vector_mult h3 vertexVector (Vector_dot h3 vertexOtherVector vertexVector)
      in add_fn h4 vertex (Vec vertexVector) None None)"

section \<open>The free functions of the second module (\<open>part_001\<close>)\<close>

definition add_p1 ::
  "heap \<Rightarrow> ref \<Rightarrow> arg \<Rightarrow> number option \<Rightarrow> number option \<Rightarrow> ref \<times> heap" where
  "add_p1 h vector x0 y0 z0 =
     (case x0 of
        Vec v \<Rightarrow>
          new_Vector h (Some (x (h ! vector) + x (h ! v))) (Some (y (h ! vector) + y (h ! v)))
            (Some (z (h ! vector) + z (h ! v)))
      | Num n \<Rightarrow>
          new_Vector h (Some (x (h ! vector) + n)) (Some (y (h ! vector) + dflt y0 (Fin 0)))
            (Some (z (h ! vector) + dflt z0 (Fin 0))))"

definition sub_p1 ::
  "heap \<Rightarrow> ref \<Rightarrow> arg \<Rightarrow> number option \<Rightarrow> number option \<Rightarrow> ref \<times> heap" where
  "sub_p1 h vector x0 y0 z0 =
     (case x0 of
        Vec v \<Rightarrow>
          new_Vector h (Some (x (h ! vector) - x (h ! v))) (Some (y (h ! vector) - y (h ! v)))
            (Some (z (h ! vector) - z (h ! v)))
      | Num n \<Rightarrow>
          new_Vector h (Some (x (h ! vector) - n)) (Some (y (h ! vector) - dflt y0 (Fin 0)))
            (Some (z (h ! vector) - dflt z0 (Fin 0))))"

definition mult_p1 :: "heap \<Rightarrow> ref \<Rightarrow> number \<Rightarrow> ref \<times> heap" where
  "mult_p1 h vector factor =
     (if isFinite factor
      then new_Vector h (Some (x (h ! vector) * factor)) (Some (y (h ! vector) * factor))
             (Some (z (h ! vector) * factor))
      else new_Vector h (Some (x (h ! vector))) (Some (y (h ! vector))) (Some (z (h ! vector))))"

definition div_p1 :: "heap \<Rightarrow> ref \<Rightarrow> number \<Rightarrow> ref \<times> heap" where
  "div_p1 h vector divisor =
     (if \<not> eq_number divisor (Fin 0) \<and> isFinite divisor
      then (let inverse0 = Fin 1 / divisor
            in new_Vector h (Some (x (h ! vector) * inverse0)) (Some (y (h ! vector) * inverse0))
                 (Some (z (h ! vector) * inverse0)))
      else new_Vector h (Some (x (h ! vector))) (Some (y (h ! vector))) (Some (z (h ! vector))))"

definition normalize_p1 :: "heap \<Rightarrow> ref \<Rightarrow> ref \<times> heap" where
  "normalize_p1 h vector =
     div_p1 h vector (Math_hypot (x (h ! vector)) (y (h ! vector)) (z (h ! vector)))"

definition setMag_p1 :: "heap \<Rightarrow> ref \<Rightarrow> number \<Rightarrow> ref \<times> heap" where
  "setMag_p1 h vector mag =
     (let (r, h1) = div_p1 h vector (Math_hypot (x (h ! vector)) (y (h ! vector)) (z (h ! vector)))
      in Vector_mult h1 r mag)"

definition max_p1 :: "heap \<Rightarrow> ref \<Rightarrow> ref \<Rightarrow> ref \<times> heap" where
  "max_p1 h vector otherVector =
     (if Vector_mag h vector > Vector_mag h otherVector then Vector_copy h vector
      else Vector_copy h otherVector)"

definition min_p1 :: "heap \<Rightarrow> ref \<Rightarrow> ref \<Rightarrow> ref \<times> heap" where
  "min_p1 h vector otherVector =
     (if Vector_mag h vector < Vector_mag h otherVector then Vector_copy h vector
      else Vector_copy h otherVector)"

definition equals_p1 :: "heap \<Rightarrow> ref \<Rightarrow> ref \<Rightarrow> bool" where
  "equals_p1 h vector otherVector =
     (eq_number (x (h ! vector)) (x (h ! otherVector))
      \<and> eq_number (y (h ! vector)) (y (h ! otherVector))
      \<and> eq_number (z (h ! vector)) (z (h ! otherVector)))"

definition dist_p1 :: "heap \<Rightarrow> ref \<Rightarrow> ref \<Rightarrow> number" where
  "dist_p1 h vector otherVector =
     Math_hypot (x (h ! vector) - x (h ! otherVector)) (y (h ! vector) - y (h ! otherVector))
       (z (h ! vector) - z (h ! otherVector))"

definition distSq_p1 :: "heap \<Rightarrow> ref \<Rightarrow> ref \<Rightarrow> number" where
  "distSq_p1 h vector otherVector =
     sqr (Math_hypot (x (h ! vector) - x (h ! otherVector))
       (y (h ! vector) - y (h ! otherVector)) (z (h ! vector) - z (h ! otherVector)))"

definition cross_p1 :: "heap \<Rightarrow> ref \<Rightarrow> ref \<Rightarrow> ref \<times> heap" where
  "cross_p1 h vector otherVector =
     new_Vector h
       (Some (y (h ! vector) * z (h ! otherVector) - z (h ! vector) * y (h ! otherVector)))
       (Some (z (h ! vector) * x (h ! otherVector) - x (h ! vector) * z (h ! otherVector)))
       (Some (x (h ! vector) * y (h ! otherVector) - y (h ! vector) * x (h ! otherVector)))"

definition dot_p1 :: "heap \<Rightarrow> ref \<Rightarrow> ref \<Rightarrow> number" where
  "dot_p1 h vector otherVector =
     x (h ! vector) * x (h ! otherVector) + y (h ! vector) * y (h ! otherVector)
       + z (h ! vector) * z (h ! otherVector)"

definition toArray_p1 :: "heap \<Rightarrow> ref \<Rightarrow> number list" where
  "toArray_p1 h vector = [x (h ! vector), y (h ! vector), z (h ! vector)]"

definition changeOfBasis_p1 ::
  "heap \<Rightarrow> ref \<Rightarrow> ref option \<Rightarrow> ref option \<Rightarrow> ref option \<Rightarrow> ref \<times> heap" where
  "changeOfBasis_p1 h0 vector vi vj vk =
     (let ((i, j, k), h) = basis_args h0 vi vj vk
      in new_Vector h
           (Some (x (h ! vector) * x (h ! i) + y (h ! vector) * x (h ! j) + z (h ! vector) * x (h ! k)))
           (Some (x (h ! vector) * y (h ! i) + y (h ! vector) * y (h ! j) + z (h ! vector) * y (h ! k)))
           (Some (x (h ! vector) * z (h ! i) + y (h ! vector) * z (h ! j) + z (h ! vector) * z (h ! k))))"

definition lerp_p1 :: "heap \<Rightarrow> ref \<Rightarrow> ref \<Rightarrow> number \<Rightarrow> ref \<times> heap" where
  "lerp_p1 h vector otherVector alpha =
     new_Vector h
       (Some (x (h ! vector) + (x (h ! otherVector) - x (h ! vector)) * alpha))
       (Some (y (h ! vector) + (y (h ! otherVector) - y (h ! vector)) * alpha))
       (Some (z (h ! vector) + (z (h ! otherVector) - z (h ! vector)) * alpha))"

definition angleBetween_p1 :: "heap \<Rightarrow> ref \<Rightarrow> ref \<Rightarrow> number option" where
  "angleBetween_p1 h vector otherVector =
     (let magMult = Vector_mag h vector * Vector_mag h otherVector
      in if \<not> eq_number magMult (Fin 0)
         then (let dotOverMag = Vector_dot h vector otherVector / magMult
               in Some (Math_acos (Math_max (Math_min dotOverMag (Fin 1)) (- Fin 1))))
         else None)"

definition rotate_p1 :: "heap \<Rightarrow> ref \<Rightarrow> number \<Rightarrow> ref \<times> heap" where
  "rotate_p1 h vector angle =
     (let cosOfAngle = Math_cos angle; sinOfAngle = Math_sin angle
      in new_Vector h
           (Some (x (h ! vector) * cosOfAngle + y (h ! vector) * - sinOfAngle))
           (Some (x (h ! vector) * sinOfAngle + y (h ! vector) * cosOfAngle))
           (Some (z (h ! vector))))"

definition rotateX_p1 :: "heap \<Rightarrow> ref \<Rightarrow> number \<Rightarrow> ref \<times> heap" where
  "rotateX_p1 h vector angle =
     (let cosOfAngle = Math_cos angle; sinOfAngle = Math_sin angle
      in new_Vector h
           (Some (x (h ! vector)))
           (Some (y (h ! vector) * cosOfAngle + z (h ! vector) * - sinOfAngle))
           (Some (y (h ! vector) * sinOfAngle + z (h ! vector) * cosOfAngle)))"

definition rotateY_p1 :: "heap \<Rightarrow> ref \<Rightarrow> number \<Rightarrow> ref \<times> heap" where
  "rotateY_p1 h vector angle =
     (let cosOfAngle = Math_cos angle; sinOfAngle = Math_sin angle
      in new_Vector h
           (Some (x (h ! vector) * cosOfAngle + z (h ! vector) * sinOfAngle))
           (Some (y (h ! vector)))
           (Some (x (h ! vector) * - sinOfAngle + z (h ! vector) * cosOfAngle)))"

definition fromAngle_p1 :: "heap \<Rightarrow> number \<Rightarrow> ref \<times> heap" where
  "fromAngle_p1 h angle = new_Vector h (Some (Math_cos angle)) (Some (Math_sin angle)) None"

definition fromAngles_p1 :: "heap \<Rightarrow> number \<Rightarrow> number \<Rightarrow> ref \<times> heap" where
  "fromAngles_p1 h polar azimuth =
     new_Vector h
       (Some (Math_sin azimuth * Math_cos polar))
       (Some (Math_sin azimuth * Math_sin polar))
       (Some (Math_cos azimuth))"

definition random2D_p1 :: "heap \<Rightarrow> number \<Rightarrow> ref \<times> heap" where
  "random2D_p1 h rnd = fromAngle_p1 h (rnd * Math_PI * Fin 2)"

definition random3D_p1 :: "heap \<Rightarrow> number \<Rightarrow> number \<Rightarrow> ref \<times> heap" where
  "random3D_p1 h rnd1 rnd2 = fromAngles_p1 h (rnd1 * Math_PI * Fin 2) (rnd2 * Math_PI * Fin 2)"

definition scalarProyection_p1 :: "heap \<Rightarrow> ref \<Rightarrow> ref \<Rightarrow> ref \<Rightarrow> ref \<times> heap" where
  "scalarProyection_p1 h vertex vector otherVector =
     (let (vertexVector, h1) = sub_p1 h vector (Vec vertex) None None;
          (vertexOtherVector, h2) = sub_p1 h1 otherVector (Vec vertex) None None;
          (r3, h3) = Vector_normalize h2 vertexVector;
          (r4, h4) = Vector_mult h3 vertexVector (Vector_dot h3 vertexOtherVector vertexVector)
      in add_p1 h4 vertex (Vec vertexVector) None None)"

text \<open>The constants, which only this module has.\<close>

definition right_p1 :: "heap \<Rightarrow> ref \<times> heap" where
  "right_p1 h = new_Vector h (Some (Fin 1)) (Some (Fin 0)) (Some (Fin 0))"

definition left_p1 :: "heap \<Rightarrow> ref \<times> heap" where
  "left_p1 h = new_Vector h (Some (- Fin 1)) (Some (Fin 0)) (Some (Fin 0))"

definition up_p1 :: "heap \<Rightarrow> ref \<times> heap" where
  "up_p1 h = new_Vector h (Some (Fin 0)) (Some (Fin 1)) (Some (Fin 0))"

definition down_p1 :: "heap \<Rightarrow> ref \<times> heap" where
  "down_p1 h = new_Vector h (Some (Fin 0)) (Some (- Fin 1)) (Some (Fin 0))"

definition forward_p1 :: "heap \<Rightarrow> ref \<times> heap" where
  "forward_p1 h = new_Vector h (Some (Fin 0)) (Some (Fin 0)) (Some (Fin 1))"

definition back_p1 :: "heap \<Rightarrow> ref \<times> heap" where
  "back_p1 h = new_Vector h (Some (Fin 0)) (Some (Fin 0)) (Some (- Fin 1))"

definition zero_p1 :: "heap \<Rightarrow> ref \<times> heap" where
  "zero_p1 h = new_Vector h None None None"

definition one_p1 :: "heap \<Rightarrow> ref \<times> heap" where
  "one_p1 h = new_Vector h (Some (Fin 1)) (Some (Fin 1)) (Some (Fin 1))"

definition createVector_p1 ::
  "heap \<Rightarrow> number option \<Rightarrow> number option \<Rightarrow> number option \<Rightarrow> ref \<times> heap" where
  "createVector_p1 h x0 y0 z0 =
     new_Vector h (Some (dflt x0 (Fin 0))) (Some (dflt y0 (Fin 0))) (Some (dflt z0 (Fin 0)))"

section \<open>The free function of \<open>src/staticFnVector.ts\<close>\<close>

text \<open>Its \<open>add\<close> has no default for \<open>y\<close> and \<open>z\<close>: the three numbers are required.\<close>

definition add_static :: "heap \<Rightarrow> ref \<Rightarrow> arg \<Rightarrow> number \<Rightarrow> number \<Rightarrow> ref \<times> heap" where
  "add_static h vector x0 y0 z0 =
     (case x0 of
        Vec v \<Rightarrow>
          new_Vector h (Some (x (h ! vector) + x (h ! v))) (Some (y (h ! vector) + y (h ! v)))
            (Some (z (h ! vector) + z (h ! v)))
      | Num n \<Rightarrow>
          new_Vector h (Some (x (h ! vector) + n)) (Some (y (h ! vector) + y0))
            (Some (z (h ! vector) + z0)))"

section \<open>Predicates of the statements\<close>

text \<open>The three components of an object are finite numbers.\<close>

definition finite_vec :: "Vector \<Rightarrow> bool" where
  "finite_vec v = (isFinite (x v) \<and> isFinite (y v) \<and> isFinite (z v))"

text \<open>
  A call that started in store \<open>h\<close> returned a fresh object and changed nothing that
  was there: the store it leaves begins with \<open>h\<close>, and the reference it returns is an
  index of the part added.
\<close>

definition returns_fresh :: "heap \<Rightarrow> ref \<times> heap \<Rightarrow> bool" where
  "returns_fresh h res =
     (take (length h) (snd res) = h \<and> length h \<le> fst res \<and> fst res < length (snd res))"

text \<open>An argument of type \<open>Vector | number\<close> refers to an object of the store, if to any.\<close>

definition valid_arg :: "heap \<Rightarrow> arg \<Rightarrow> bool" where
  "valid_arg h a = (case a of Vec v \<Rightarrow> v < length h | Num n \<Rightarrow> True)"

text \<open>The object that a call returned, in the store the call left.\<close>

definition returned :: "ref \<times> heap \<Rightarrow> Vector" where
  "returned res = snd res ! fst res"

text \<open>
  A method applied to a fresh copy of the object \<open>v\<close>: \<open>v.copy().m(...)\<close>, where \<open>m\<close>
  receives the store after the copy and the reference of the copy.
\<close>

definition on_copy :: "heap \<Rightarrow> ref \<Rightarrow> (heap \<Rightarrow> ref \<Rightarrow> 'a) \<Rightarrow> 'a" where
  "on_copy h v m = (let (c, h1) = Vector_copy h v in m h1 c)"

text \<open>A basis vector that is passed refers to an object of the store.\<close>

definition valid_opt :: "heap \<Rightarrow> ref option \<Rightarrow> bool" where
  "valid_opt h r = (case r of None \<Rightarrow> True | Some v \<Rightarrow> v < length h)"

text \<open>
  Three doubles for the examples: \<open>1.5 * 2^1023\<close>, near the top of the finite range;
  \<open>2^600\<close>, whose square is beyond it; and \<open>Number.MIN_VALUE = 2^-1074\<close>, the least
  positive double, whose reciprocal is beyond it.
\<close>

definition huge :: real where
  "huge = 3 * 2 ^ 1022"

definition two_pow_600 :: real where
  "two_pow_600 = 2 ^ 600"

definition Number_MIN_VALUE :: real where
  "Number_MIN_VALUE = 1 / 2 ^ 1074"

text \<open>At most one component of an object is not zero.\<close>

definition on_axis :: "Vector \<Rightarrow> bool" where
  "on_axis v =
     (y v = Fin 0 \<and> z v = Fin 0 \<or> x v = Fin 0 \<and> z v = Fin 0 \<or> x v = Fin 0 \<and> y v = Fin 0)"

text \<open>
  A number is an integer of absolute value at most \<open>2^16\<close>. Products of two such
  numbers, differences of two of these products, their products with a third such
  number and sums of three of those are integers of absolute value at most \<open>2^53\<close>,
  which doubles hold and compute exactly.
\<close>

fun small_int :: "number \<Rightarrow> bool" where
  "small_int (Fin r) = (of_int \<lfloor>r\<rfloor> = r \<and> \<bar>r\<bar> \<le> 2 ^ 16)"
| "small_int Infinity = False"
| "small_int NegInfinity = False"
| "small_int NaN = False"

definition small_int_vec :: "Vector \<Rightarrow> bool" where
  "small_int_vec v = (small_int (x v) \<and> small_int (y v) \<and> small_int (z v))"

section \<open>Facts about the store and the numbers\<close>

lemma set_x_same: "x (h ! r) = n \<Longrightarrow> set_x h r n = h"
  by (auto simp: set_x_def)

lemma set_y_same: "y (h ! r) = n \<Longrightarrow> set_y h r n = h"
  by (auto simp: set_y_def)

lemma set_z_same: "z (h ! r) = n \<Longrightarrow> set_z h r n = h"
  by (auto simp: set_z_def)

lemma eq_number_not_less: "eq_number p q \<Longrightarrow> \<not> p < q \<and> \<not> q < p"
  by (cases p; cases q) (simp_all add: eq_number_def)

lemma Vector_copy_eq: "Vector_copy h r = (length h, h @ [h ! r])"
  by (simp add: Vector_copy_def new_Vector_def dflt_def)

lemma sqrt3_zero: "sqrt (a\<^sup>2 + b\<^sup>2 + c\<^sup>2) = 0 \<longleftrightarrow> a = 0 \<and> b = 0 \<and> c = (0::real)"
proof -
  have "a\<^sup>2 + b\<^sup>2 + c\<^sup>2 = 0 \<longleftrightarrow> a = 0 \<and> b = 0 \<and> c = 0"
    using add_nonneg_eq_0_iff[of "a\<^sup>2 + b\<^sup>2" "c\<^sup>2"] add_nonneg_eq_0_iff[of "a\<^sup>2" "b\<^sup>2"]
    by auto
  then show ?thesis by simp
qed

text \<open>The bound of overflow lies above every integer that a double holds exactly.\<close>

lemma overflow_threshold_gt: "(2::real) ^ 53 < overflow_threshold"
proof -
  have "(2::real) ^ 53 + 2 ^ 970 \<le> 2 ^ 970 + 2 ^ 970"
    by (intro add_right_mono power_increasing) simp_all
  also have "\<dots> = 2 ^ 971"
    by simp
  also have "\<dots> < (2::real) ^ 1024"
    by (intro power_strict_increasing) simp_all
  finally show ?thesis
    by (simp add: overflow_threshold_def)
qed

lemma overflow_threshold_le: "overflow_threshold \<le> 2 ^ 1024"
  by (simp add: overflow_threshold_def)

lemma overflow_bounded: "\<bar>v\<bar> \<le> 2 ^ 53 \<Longrightarrow> overflow v = Fin v"
  using overflow_threshold_gt by (auto simp: overflow_def)

lemma overflow_zero [simp]: "overflow 0 = Fin 0"
  by (simp add: overflow_bounded)

lemma overflow_one [simp]: "overflow 1 = Fin 1"
  by (simp add: overflow_bounded)

lemma overflow_eq_Fin: "overflow v = Fin w \<longleftrightarrow> v = w \<and> \<bar>v\<bar> < overflow_threshold"
  using overflow_threshold_gt by (auto simp: overflow_def)

lemma overflow_Infinity: "2 ^ 1024 \<le> v \<Longrightarrow> overflow v = Infinity"
  using overflow_threshold_le by (simp add: overflow_def)

lemma hypot_zero: "Math_hypot a b c = Fin 0 \<longleftrightarrow> a = Fin 0 \<and> b = Fin 0 \<and> c = Fin 0"
proof -
  have "overflow (sqrt (r\<^sup>2 + s\<^sup>2 + t\<^sup>2)) = Fin 0 \<longleftrightarrow> r = 0 \<and> s = 0 \<and> t = 0" for r s t
    using overflow_threshold_gt sqrt3_zero[of r s t]
    by (auto simp: overflow_eq_Fin simp del: real_sqrt_eq_zero_cancel_iff)
  then show ?thesis
    by (cases a; cases b; cases c) (simp_all add: Math_hypot_def is_inf_def)
qed

lemma zero_times: "isFinite m \<Longrightarrow> Fin 0 * m = Fin 0"
  by (cases m) simp_all

lemma length_set [simp]:
  "length (set_x h r n) = length h"
  "length (set_y h r n) = length h"
  "length (set_z h r n) = length h"
  by (simp_all add: set_x_def set_y_def set_z_def)

lemma nth_set_same [simp]:
  "r < length h \<Longrightarrow> set_x h r n ! r = (h ! r)\<lparr>x := n\<rparr>"
  "r < length h \<Longrightarrow> set_y h r n ! r = (h ! r)\<lparr>y := n\<rparr>"
  "r < length h \<Longrightarrow> set_z h r n ! r = (h ! r)\<lparr>z := n\<rparr>"
  by (simp_all add: set_x_def set_y_def set_z_def)

lemma nth_set_other [simp]:
  "q \<noteq> r \<Longrightarrow> set_x h r n ! q = h ! q"
  "q \<noteq> r \<Longrightarrow> set_y h r n ! q = h ! q"
  "q \<noteq> r \<Longrightarrow> set_z h r n ! q = h ! q"
  by (simp_all add: set_x_def set_y_def set_z_def)

lemma Vector_all_fields: "v\<lparr>x := a, y := b, z := c\<rparr> = \<lparr>x = a, y = b, z = c\<rparr>"
  by (cases v) simp

text \<open>Assigning the three fields of an object in turn replaces the object.\<close>

lemma set_xyz: "set_z (set_y (set_x h r a) r b) r c = h[r := \<lparr>x = a, y = b, z = c\<rparr>]"
  by (cases "r < length h")
    (simp_all add: set_x_def set_y_def set_z_def Vector_all_fields list_update_beyond)

lemma Vector_div_effect:
  "this < length h \<Longrightarrow> isFinite d \<Longrightarrow> d \<noteq> Fin 0 \<Longrightarrow>
   Vector_div h this d =
     (this, h[this := \<lparr>x = x (h ! this) / d, y = y (h ! this) / d, z = z (h ! this) / d\<rparr>])"
  by (simp add: Vector_div_def eq_number_def Let_def set_xyz)

text \<open>
  On an object whose components are all zero, \<open>this.div(0).mult(m)\<close> changes nothing:
  \<open>div\<close> returns at its test of the divisor, and \<open>mult\<close> either returns at its test of
  the factor or multiplies zeros.
\<close>

lemma div0_mult:
  "x (h ! this) = Fin 0 \<Longrightarrow> y (h ! this) = Fin 0 \<Longrightarrow> z (h ! this) = Fin 0 \<Longrightarrow>
   (let (r, h1) = Vector_div h this (Fin 0) in Vector_mult h1 r m) = (this, h)"
  by (simp add: Vector_div_def Vector_mult_def eq_number_def zero_times
      set_x_same set_y_same set_z_same Let_def)

section \<open>The magnitude clamps on a zero vector\<close>

text \<open>
  Claim C1 says that \<open>maxMag\<close>, \<open>minMag\<close> and \<open>constrainMag\<close>, called on a vector of
  magnitude 0 where they rescale, divide by that magnitude unchecked and leave infinite
  or \<open>NaN\<close> components. They divide through the method \<open>div\<close>, which tests its divisor.
  At the zero vector each of the three calls rescales (\<open>0 > -1\<close>, \<open>0 < 5\<close>, \<open>0 < 1\<close>)
  and leaves the components \<open>(0, 0, 0)\<close>.
\<close>

theorem zero_vector_rescale_counterexample:
  "Vector_mag [\<lparr>x = Fin 0, y = Fin 0, z = Fin 0\<rparr>] 0 = Fin 0 \<and>
   Vector_mag [\<lparr>x = Fin 0, y = Fin 0, z = Fin 0\<rparr>] 0 > Fin (- 1) \<and>
   Vector_mag [\<lparr>x = Fin 0, y = Fin 0, z = Fin 0\<rparr>] 0 < Fin 5 \<and>
   Vector_mag [\<lparr>x = Fin 0, y = Fin 0, z = Fin 0\<rparr>] 0 < Fin 1 \<and>
   snd (Vector_maxMag [\<lparr>x = Fin 0, y = Fin 0, z = Fin 0\<rparr>] 0 (Fin (- 1))) ! 0
     = \<lparr>x = Fin 0, y = Fin 0, z = Fin 0\<rparr> \<and>
   snd (Vector_minMag [\<lparr>x = Fin 0, y = Fin 0, z = Fin 0\<rparr>] 0 (Fin 5)) ! 0
     = \<lparr>x = Fin 0, y = Fin 0, z = Fin 0\<rparr> \<and>
   snd (Vector_constrainMag [\<lparr>x = Fin 0, y = Fin 0, z = Fin 0\<rparr>] 0 (Fin 1) (Fin 2)) ! 0
     = \<lparr>x = Fin 0, y = Fin 0, z = Fin 0\<rparr>"
  by (simp add: Vector_mag_def Math_hypot_def is_inf_def Vector_maxMag_def Vector_minMag_def
      Vector_constrainMag_def Vector_div_def Vector_mult_def eq_number_def
      set_x_def set_y_def set_z_def Let_def)

text \<open>
  Claim C1, amended: for every vector of magnitude exactly 0 and all arguments,
  \<open>maxMag\<close>, \<open>minMag\<close> and \<open>constrainMag\<close> return the receiver and leave the whole store,
  the receiver's zero components included, as it was.
\<close>

theorem zero_vector_rescale_noop:
  "Vector_mag h this = Fin 0 \<Longrightarrow>
   Vector_maxMag h this m = (this, h) \<and> Vector_minMag h this m = (this, h) \<and>
   Vector_constrainMag h this lo hi = (this, h)"
proof -
  assume "Vector_mag h this = Fin 0"
  then have hyp: "Math_hypot (x (h ! this)) (y (h ! this)) (z (h ! this)) = Fin 0"
    by (simp add: Vector_mag_def)
  then have comps: "x (h ! this) = Fin 0" "y (h ! this) = Fin 0" "z (h ! this) = Fin 0"
    by (simp_all add: hypot_zero)
  have resc: "(case Vector_div h this (Fin 0) of (r, h1) \<Rightarrow> Vector_mult h1 r k) = (this, h)"
    for k
    using div0_mult[OF comps, of k] by simp
  show ?thesis
    by (simp add: Vector_maxMag_def Vector_minMag_def Vector_constrainMag_def hyp resc Let_def)
qed

text \<open>The amended claim C1 at the zero vector, with the arguments of the counterexample.\<close>

theorem zero_vector_rescale_noop_witness:
  "Vector_mag [\<lparr>x = Fin 0, y = Fin 0, z = Fin 0\<rparr>] 0 = Fin 0 \<and>
   Vector_maxMag [\<lparr>x = Fin 0, y = Fin 0, z = Fin 0\<rparr>] 0 (Fin (- 1))
     = (0, [\<lparr>x = Fin 0, y = Fin 0, z = Fin 0\<rparr>]) \<and>
   Vector_minMag [\<lparr>x = Fin 0, y = Fin 0, z = Fin 0\<rparr>] 0 (Fin (- 1))
     = (0, [\<lparr>x = Fin 0, y = Fin 0, z = Fin 0\<rparr>]) \<and>
   Vector_constrainMag [\<lparr>x = Fin 0, y = Fin 0, z = Fin 0\<rparr>] 0 (Fin 1) (Fin 2)
     = (0, [\<lparr>x = Fin 0, y = Fin 0, z = Fin 0\<rparr>])"
proof -
  have m0: "Vector_mag [\<lparr>x = Fin 0, y = Fin 0, z = Fin 0\<rparr>] 0 = Fin 0"
    by (simp add: Vector_mag_def Math_hypot_def is_inf_def)
  show ?thesis
    using m0 zero_vector_rescale_noop[OF m0, of "Fin (- 1)" "Fin 1" "Fin 2"] by simp
qed

section \<open>The guards of \<open>mult\<close> and \<open>div\<close>\<close>

text \<open>
  Claim C5: \<open>mult\<close> with the factor \<open>Infinity\<close>, \<open>-Infinity\<close> or \<open>NaN\<close> returns the
  receiver and changes no component, and so does \<open>div\<close> with the divisor 0,
  \<open>Infinity\<close>, \<open>-Infinity\<close> or \<open>NaN\<close>.
\<close>

theorem mult_div_guard_noop:
  "(factor = Infinity \<or> factor = NegInfinity \<or> factor = NaN \<longrightarrow>
      Vector_mult h this factor = (this, h)) \<and>
   (divisor = Fin 0 \<or> divisor = Infinity \<or> divisor = NegInfinity \<or> divisor = NaN \<longrightarrow>
      Vector_div h this divisor = (this, h))"
  by (auto simp: Vector_mult_def Vector_div_def eq_number_def)

text \<open>Claim C5 at the vector \<open>(1, 2, 3)\<close>, with the factor \<open>NaN\<close> and the divisor 0.\<close>

theorem mult_div_guard_noop_witness:
  "Vector_mult [\<lparr>x = Fin 1, y = Fin 2, z = Fin 3\<rparr>] 0 NaN
     = (0, [\<lparr>x = Fin 1, y = Fin 2, z = Fin 3\<rparr>]) \<and>
   Vector_div [\<lparr>x = Fin 1, y = Fin 2, z = Fin 3\<rparr>] 0 (Fin 0)
     = (0, [\<lparr>x = Fin 1, y = Fin 2, z = Fin 3\<rparr>])"
  using mult_div_guard_noop[of NaN "[\<lparr>x = Fin 1, y = Fin 2, z = Fin 3\<rparr>]" 0 "Fin 0"]
  by simp

section \<open>Ties of \<open>max\<close> and \<open>min\<close>\<close>

text \<open>
  Claim C10: when the two magnitudes are equal, the methods \<open>max\<close> and \<open>min\<close> both
  return the reference of their argument, and the free functions \<open>max\<close> and \<open>min\<close>
  of either module return a fresh object with the components of their second argument.
\<close>

theorem max_min_tie:
  "eq_number (Vector_mag h a) (Vector_mag h b) \<Longrightarrow>
   Vector_max h a b = b \<and> Vector_min h a b = b \<and>
   max_fn h a b = (length h, h @ [h ! b]) \<and> min_fn h a b = (length h, h @ [h ! b]) \<and>
   max_p1 h a b = (length h, h @ [h ! b]) \<and> min_p1 h a b = (length h, h @ [h ! b])"
  by (simp add: Vector_max_def Vector_min_def max_fn_def min_fn_def max_p1_def min_p1_def
      Vector_copy_eq eq_number_not_less)

text \<open>Claim C10 at \<open>a = (1, 0, 0)\<close> and \<open>b = (0, 1, 0)\<close>, both of magnitude 1.\<close>

theorem max_min_tie_witness:
  "eq_number (Vector_mag [\<lparr>x = Fin 1, y = Fin 0, z = Fin 0\<rparr>, \<lparr>x = Fin 0, y = Fin 1, z = Fin 0\<rparr>] 0)
     (Vector_mag [\<lparr>x = Fin 1, y = Fin 0, z = Fin 0\<rparr>, \<lparr>x = Fin 0, y = Fin 1, z = Fin 0\<rparr>] 1) \<and>
   Vector_max [\<lparr>x = Fin 1, y = Fin 0, z = Fin 0\<rparr>, \<lparr>x = Fin 0, y = Fin 1, z = Fin 0\<rparr>] 0 1 = 1 \<and>
   Vector_min [\<lparr>x = Fin 1, y = Fin 0, z = Fin 0\<rparr>, \<lparr>x = Fin 0, y = Fin 1, z = Fin 0\<rparr>] 0 1 = 1 \<and>
   max_fn [\<lparr>x = Fin 1, y = Fin 0, z = Fin 0\<rparr>, \<lparr>x = Fin 0, y = Fin 1, z = Fin 0\<rparr>] 0 1
     = (2, [\<lparr>x = Fin 1, y = Fin 0, z = Fin 0\<rparr>, \<lparr>x = Fin 0, y = Fin 1, z = Fin 0\<rparr>,
            \<lparr>x = Fin 0, y = Fin 1, z = Fin 0\<rparr>]) \<and>
   min_fn [\<lparr>x = Fin 1, y = Fin 0, z = Fin 0\<rparr>, \<lparr>x = Fin 0, y = Fin 1, z = Fin 0\<rparr>] 0 1
     = (2, [\<lparr>x = Fin 1, y = Fin 0, z = Fin 0\<rparr>, \<lparr>x = Fin 0, y = Fin 1, z = Fin 0\<rparr>,
            \<lparr>x = Fin 0, y = Fin 1, z = Fin 0\<rparr>])"
proof -
  let ?h = "[\<lparr>x = Fin 1, y = Fin 0, z = Fin 0\<rparr>, \<lparr>x = Fin 0, y = Fin 1, z = Fin 0\<rparr>]"
  have tie: "eq_number (Vector_mag ?h 0) (Vector_mag ?h 1)"
    by (simp add: Vector_mag_def Math_hypot_def is_inf_def eq_number_def)
  show ?thesis
    using tie max_min_tie[OF tie] by simp
qed

section \<open>The numeric form of \<open>set\<close>\<close>

text \<open>
  Claim C2 says that \<open>set\<close> with three numbers overwrites the components with those
  three values. The method declares and documents \<open>y\<close> and \<open>z\<close> and assigns \<open>x\<close> to all
  three fields: \<open>new Vector(0, 0, 0).set(1, 2, 3)\<close> leaves \<open>(1, 1, 1)\<close>, not \<open>(1, 2, 3)\<close>.
\<close>

theorem set_three_numbers_ignores_y_z:
  "Vector_set [\<lparr>x = Fin 0, y = Fin 0, z = Fin 0\<rparr>] 0 (Num (Fin 1)) (Some (Fin 2)) (Some (Fin 3))
     = (0, [\<lparr>x = Fin 1, y = Fin 1, z = Fin 1\<rparr>])"
  by (simp add: Vector_set_def set_x_def set_y_def set_z_def)

section \<open>The angle between two vectors\<close>

lemma clamp_range:
  "Math_max (Math_min d (Fin 1)) (- Fin 1) = NaN \<or>
   (\<exists>r. Math_max (Math_min d (Fin 1)) (- Fin 1) = Fin r \<and> - 1 \<le> r \<and> r \<le> 1)"
  by (cases d) (simp_all add: Math_max_def Math_min_def)

text \<open>
  Claim C4: when the product of the two magnitudes equals 0, the method \<open>angleBetween\<close>
  returns 0 and the free function \<open>angleBetween\<close> (of either module) returns
  \<open>undefined\<close>; otherwise both return the arc cosine of the clamped quotient of the dot
  product by that product, and the clamped quotient lies in \<open>[-1, 1]\<close> unless it is
  \<open>NaN\<close>.
\<close>

theorem angleBetween_zero_policy:
  "(eq_number (Vector_mag h a * Vector_mag h b) (Fin 0) \<longrightarrow>
      Vector_angleBetween h a b = Fin 0 \<and> angleBetween_fn h a b = None \<and>
      angleBetween_p1 h a b = None) \<and>
   (\<not> eq_number (Vector_mag h a * Vector_mag h b) (Fin 0) \<longrightarrow>
      (let c = Math_max (Math_min (Vector_dot h a b / (Vector_mag h a * Vector_mag h b)) (Fin 1))
                 (- Fin 1)
       in Vector_angleBetween h a b = Math_acos c \<and>
          angleBetween_fn h a b = Some (Math_acos c) \<and>
          angleBetween_p1 h a b = Some (Math_acos c) \<and>
          (c = NaN \<or> (\<exists>r. c = Fin r \<and> - 1 \<le> r \<and> r \<le> 1))))"
  using clamp_range[of "Vector_dot h a b / (Vector_mag h a * Vector_mag h b)"]
  by (simp add: Vector_angleBetween_def angleBetween_fn_def angleBetween_p1_def Let_def)

text \<open>
  Claim C4 at \<open>(1, 0, 0)\<close> against the zero vector (product 0) and against
  \<open>(0, 1, 0)\<close> (product 1, a right angle).
\<close>

theorem angleBetween_zero_policy_witness:
  "eq_number (Vector_mag [\<lparr>x = Fin 1, y = Fin 0, z = Fin 0\<rparr>, \<lparr>x = Fin 0, y = Fin 0, z = Fin 0\<rparr>] 0
       * Vector_mag [\<lparr>x = Fin 1, y = Fin 0, z = Fin 0\<rparr>, \<lparr>x = Fin 0, y = Fin 0, z = Fin 0\<rparr>] 1) (Fin 0) \<and>
   Vector_angleBetween [\<lparr>x = Fin 1, y = Fin 0, z = Fin 0\<rparr>, \<lparr>x = Fin 0, y = Fin 0, z = Fin 0\<rparr>] 0 1
     = Fin 0 \<and>
   angleBetween_fn [\<lparr>x = Fin 1, y = Fin 0, z = Fin 0\<rparr>, \<lparr>x = Fin 0, y = Fin 0, z = Fin 0\<rparr>] 0 1
     = None \<and>
   \<not> eq_number (Vector_mag [\<lparr>x = Fin 1, y = Fin 0, z = Fin 0\<rparr>, \<lparr>x = Fin 0, y = Fin 1, z = Fin 0\<rparr>] 0
       * Vector_mag [\<lparr>x = Fin 1, y = Fin 0, z = Fin 0\<rparr>, \<lparr>x = Fin 0, y = Fin 1, z = Fin 0\<rparr>] 1) (Fin 0) \<and>
   Vector_angleBetween [\<lparr>x = Fin 1, y = Fin 0, z = Fin 0\<rparr>, \<lparr>x = Fin 0, y = Fin 1, z = Fin 0\<rparr>] 0 1
     = Fin (pi / 2) \<and>
   angleBetween_fn [\<lparr>x = Fin 1, y = Fin 0, z = Fin 0\<rparr>, \<lparr>x = Fin 0, y = Fin 1, z = Fin 0\<rparr>] 0 1
     = Some (Fin (pi / 2))"
proof -
  let ?h0 = "[\<lparr>x = Fin 1, y = Fin 0, z = Fin 0\<rparr>, \<lparr>x = Fin 0, y = Fin 0, z = Fin 0\<rparr>]"
  let ?h1 = "[\<lparr>x = Fin 1, y = Fin 0, z = Fin 0\<rparr>, \<lparr>x = Fin 0, y = Fin 1, z = Fin 0\<rparr>]"
  have e0: "eq_number (Vector_mag ?h0 0 * Vector_mag ?h0 1) (Fin 0)"
    by (simp add: Vector_mag_def Math_hypot_def is_inf_def eq_number_def)
  have e1: "\<not> eq_number (Vector_mag ?h1 0 * Vector_mag ?h1 1) (Fin 0)"
    by (simp add: Vector_mag_def Math_hypot_def is_inf_def eq_number_def)
  have c1: "Math_max (Math_min (Vector_dot ?h1 0 1 / (Vector_mag ?h1 0 * Vector_mag ?h1 1))
      (Fin 1)) (- Fin 1) = Fin 0"
    by (simp add: Vector_mag_def Math_hypot_def is_inf_def Vector_dot_def Math_max_def
        Math_min_def)
  from angleBetween_zero_policy[of ?h0 0 1] e0
  have r0: "Vector_angleBetween ?h0 0 1 = Fin 0 \<and> angleBetween_fn ?h0 0 1 = None"
    by blast
  from angleBetween_zero_policy[of ?h1 0 1] e1
  have r1: "Vector_angleBetween ?h1 0 1 = Math_acos (Fin 0) \<and>
      angleBetween_fn ?h1 0 1 = Some (Math_acos (Fin 0))"
    unfolding Let_def c1 by blast
  show ?thesis
    using e0 e1 r0 r1 by simp
qed

section \<open>Normalisation\<close>

lemma huge_pos: "0 < huge"
  by (simp add: huge_def)

lemma hypot_overflows: "Math_hypot (Fin huge) (Fin huge) (Fin 0) = Infinity"
proof -
  define t where "t = (2::real) ^ 1022"
  have h: "huge = 3 * t"
    by (simp only: huge_def t_def)
  have "(2::real) ^ 1024 = 2 ^ 2 * 2 ^ 1022"
    unfolding power_add[symmetric] by simp
  then have p: "(2::real) ^ 1024 = 4 * t"
    by (simp only: t_def) simp
  have "(4 * t)\<^sup>2 \<le> (3 * t)\<^sup>2 + (3 * t)\<^sup>2 + 0\<^sup>2"
    by (simp add: power_mult_distrib)
  then have "4 * t \<le> sqrt ((3 * t)\<^sup>2 + (3 * t)\<^sup>2 + 0\<^sup>2)"
    by (rule real_le_rsqrt)
  then have "2 ^ 1024 \<le> sqrt (huge\<^sup>2 + huge\<^sup>2 + 0\<^sup>2)"
    by (simp only: h p)
  then have "overflow (sqrt (huge\<^sup>2 + huge\<^sup>2 + 0\<^sup>2)) = Infinity"
    by (rule overflow_Infinity)
  then show ?thesis
    by (simp add: Math_hypot_def is_inf_def)
qed

text \<open>
  Claim C6 says that after \<open>normalize\<close> the magnitude of every non-zero finite vector
  equals 1. The vector \<open>(1.5 * 2^1023, 1.5 * 2^1023, 0)\<close> is finite and not zero; its
  magnitude overflows to \<open>Infinity\<close>, \<open>div\<close> returns at its test of the divisor, the
  vector stays as it was and its magnitude stays \<open>Infinity\<close>.
\<close>

theorem normalize_overflow_counterexample:
  "finite_vec \<lparr>x = Fin huge, y = Fin huge, z = Fin 0\<rparr> \<and>
   \<not> eq_number (Fin huge) (Fin 0) \<and>
   Vector_normalize [\<lparr>x = Fin huge, y = Fin huge, z = Fin 0\<rparr>] 0
     = (0, [\<lparr>x = Fin huge, y = Fin huge, z = Fin 0\<rparr>]) \<and>
   Vector_mag [\<lparr>x = Fin huge, y = Fin huge, z = Fin 0\<rparr>] 0 = Infinity \<and>
   \<not> eq_number Infinity (Fin 1)"
  using huge_pos
  by (simp add: finite_vec_def Vector_normalize_def Vector_mag_def Vector_div_def
      hypot_overflows eq_number_def)

text \<open>The magnitude of a vector on an axis, and of what \<open>normalize\<close> makes of it.\<close>

lemma hypot_axis:
  "Math_hypot (Fin a) (Fin 0) (Fin 0) = overflow \<bar>a\<bar>"
  "Math_hypot (Fin 0) (Fin a) (Fin 0) = overflow \<bar>a\<bar>"
  "Math_hypot (Fin 0) (Fin 0) (Fin a) = overflow \<bar>a\<bar>"
  by (simp_all add: Math_hypot_def is_inf_def)

lemma hypot_unit:
  "Math_hypot (Fin 1) (Fin 0) (Fin 0) = Fin 1"
  "Math_hypot (Fin (- 1)) (Fin 0) (Fin 0) = Fin 1"
  "Math_hypot (Fin 0) (Fin 1) (Fin 0) = Fin 1"
  "Math_hypot (Fin 0) (Fin (- 1)) (Fin 0) = Fin 1"
  "Math_hypot (Fin 0) (Fin 0) (Fin 1) = Fin 1"
  "Math_hypot (Fin 0) (Fin 0) (Fin (- 1)) = Fin 1"
  by (simp_all add: Math_hypot_def is_inf_def)

lemma unit_quotient:
  assumes "isFinite (overflow \<bar>a\<bar>)" and "overflow \<bar>a\<bar> \<noteq> Fin 0"
  shows "Fin a / overflow \<bar>a\<bar> = Fin 1 \<or> Fin a / overflow \<bar>a\<bar> = Fin (- 1)"
    and "Fin 0 / overflow \<bar>a\<bar> = Fin 0"
proof -
  from assms(1) have fin: "overflow \<bar>a\<bar> = Fin \<bar>a\<bar>"
    by (auto simp: overflow_def split: if_splits)
  with assms(2) have nz: "a \<noteq> 0"
    by auto
  have "a / \<bar>a\<bar> = 1 \<or> a / \<bar>a\<bar> = - 1"
    using nz by (cases "0 < a") simp_all
  then have "overflow (a / \<bar>a\<bar>) = Fin 1 \<or> overflow (a / \<bar>a\<bar>) = Fin (- 1)"
    by (auto simp: overflow_bounded)
  with nz show "Fin a / overflow \<bar>a\<bar> = Fin 1 \<or> Fin a / overflow \<bar>a\<bar> = Fin (- 1)"
    by (simp add: fin)
  from nz show "Fin 0 / overflow \<bar>a\<bar> = Fin 0"
    by (simp add: fin)
qed

lemma finite_hypot_Fin:
  "isFinite (Math_hypot a b c) \<Longrightarrow> \<exists>r s t. a = Fin r \<and> b = Fin s \<and> c = Fin t"
  by (cases a; cases b; cases c) (simp_all add: Math_hypot_def is_inf_def)

lemma on_axis_unit:
  assumes "isFinite (Math_hypot a b c)" and "Math_hypot a b c \<noteq> Fin 0"
    and "b = Fin 0 \<and> c = Fin 0 \<or> a = Fin 0 \<and> c = Fin 0 \<or> a = Fin 0 \<and> b = Fin 0"
  shows "Math_hypot (a / Math_hypot a b c) (b / Math_hypot a b c) (c / Math_hypot a b c) = Fin 1"
proof -
  from assms(1) obtain r s t where abc: "a = Fin r" "b = Fin s" "c = Fin t"
    using finite_hypot_Fin by blast
  from assms(3) consider "b = Fin 0" "c = Fin 0" | "a = Fin 0" "c = Fin 0" | "a = Fin 0" "b = Fin 0"
    by blast
  then show ?thesis
  proof cases
    case 1
    have f: "isFinite (overflow \<bar>r\<bar>)"
      using assms(1) by (simp add: abc(1) 1 hypot_axis)
    have n: "overflow \<bar>r\<bar> \<noteq> Fin 0"
      using assms(2) by (simp add: abc(1) 1 hypot_axis)
    from unit_quotient[OF f n] show ?thesis
      by (auto simp add: abc(1) 1 hypot_axis hypot_unit)
  next
    case 2
    have f: "isFinite (overflow \<bar>s\<bar>)"
      using assms(1) by (simp add: abc(2) 2 hypot_axis)
    have n: "overflow \<bar>s\<bar> \<noteq> Fin 0"
      using assms(2) by (simp add: abc(2) 2 hypot_axis)
    from unit_quotient[OF f n] show ?thesis
      by (auto simp add: abc(2) 2 hypot_axis hypot_unit)
  next
    case 3
    have f: "isFinite (overflow \<bar>t\<bar>)"
      using assms(1) by (simp add: abc(3) 3 hypot_axis)
    have n: "overflow \<bar>t\<bar> \<noteq> Fin 0"
      using assms(2) by (simp add: abc(3) 3 hypot_axis)
    from unit_quotient[OF f n] show ?thesis
      by (auto simp add: abc(3) 3 hypot_axis hypot_unit)
  qed
qed

text \<open>
  Claim C6, amended: \<open>normalize\<close> returns the receiver and goes by the magnitude
  \<open>m = Math.hypot(x, y, z)\<close>. For the zero vector it takes the branch
  \<open>this.set(0, 0, 0)\<close> instead of dividing, and the components afterwards are
  \<open>(0, 0, 0)\<close>. When \<open>m\<close> is finite and not 0, each component becomes its quotient by
  \<open>m\<close>. When \<open>m\<close> is not finite (a component is infinite or \<open>NaN\<close>, or the
  magnitude of a finite vector overflows), the vector stays as it is. The magnitude
  afterwards is exactly 1 when \<open>m\<close> is finite and not 0 and at most one component is
  not zero; for other vectors the quotients are rounded, and nothing is said of the
  magnitude.
\<close>

theorem normalize_by_magnitude:
  "this < length h \<Longrightarrow>
   (x (h ! this) = Fin 0 \<and> y (h ! this) = Fin 0 \<and> z (h ! this) = Fin 0 \<longrightarrow>
      Vector_normalize h this = Vector_set h this (Num (Fin 0)) (Some (Fin 0)) (Some (Fin 0)) \<and>
      fst (Vector_normalize h this) = this \<and>
      snd (Vector_normalize h this) ! this = \<lparr>x = Fin 0, y = Fin 0, z = Fin 0\<rparr>) \<and>
   (isFinite (Vector_mag h this) \<and> Vector_mag h this \<noteq> Fin 0 \<longrightarrow>
      Vector_normalize h this
        = (this, h[this := \<lparr>x = x (h ! this) / Vector_mag h this,
                             y = y (h ! this) / Vector_mag h this,
                             z = z (h ! this) / Vector_mag h this\<rparr>])) \<and>
   (\<not> isFinite (Vector_mag h this) \<longrightarrow> Vector_normalize h this = (this, h)) \<and>
   (isFinite (Vector_mag h this) \<and> Vector_mag h this \<noteq> Fin 0 \<and> on_axis (h ! this) \<longrightarrow>
      Vector_mag (snd (Vector_normalize h this)) this = Fin 1)"
proof (intro conjI impI)
  assume valid: "this < length h"
  assume zero: "x (h ! this) = Fin 0 \<and> y (h ! this) = Fin 0 \<and> z (h ! this) = Fin 0"
  show n: "Vector_normalize h this
      = Vector_set h this (Num (Fin 0)) (Some (Fin 0)) (Some (Fin 0))"
    using zero
    by (simp add: Vector_normalize_def Math_hypot_def is_inf_def eq_number_def Let_def)
  show "fst (Vector_normalize h this) = this"
    by (simp add: n Vector_set_def Let_def)
  show "snd (Vector_normalize h this) ! this = \<lparr>x = Fin 0, y = Fin 0, z = Fin 0\<rparr>"
    using valid by (simp add: n Vector_set_def Let_def set_xyz)
next
  assume valid: "this < length h"
  assume "isFinite (Vector_mag h this) \<and> Vector_mag h this \<noteq> Fin 0"
  then show "Vector_normalize h this
      = (this, h[this := \<lparr>x = x (h ! this) / Vector_mag h this,
                           y = y (h ! this) / Vector_mag h this,
                           z = z (h ! this) / Vector_mag h this\<rparr>])"
    using valid
    by (simp add: Vector_normalize_def Vector_mag_def eq_number_def Vector_div_effect Let_def)
next
  assume "\<not> isFinite (Vector_mag h this)"
  then show "Vector_normalize h this = (this, h)"
    by (auto simp: Vector_normalize_def Vector_mag_def eq_number_def Vector_div_def Let_def)
next
  assume valid: "this < length h"
  assume a: "isFinite (Vector_mag h this) \<and> Vector_mag h this \<noteq> Fin 0 \<and> on_axis (h ! this)"
  then have n: "Vector_normalize h this
      = (this, h[this := \<lparr>x = x (h ! this) / Vector_mag h this,
                           y = y (h ! this) / Vector_mag h this,
                           z = z (h ! this) / Vector_mag h this\<rparr>])"
    using valid
    by (simp add: Vector_normalize_def Vector_mag_def eq_number_def Vector_div_effect Let_def)
  from a have "Math_hypot (x (h ! this) / Vector_mag h this) (y (h ! this) / Vector_mag h this)
      (z (h ! this) / Vector_mag h this) = Fin 1"
    unfolding Vector_mag_def on_axis_def by (intro on_axis_unit) simp_all
  then show "Vector_mag (snd (Vector_normalize h this)) this = Fin 1"
    using valid by (simp add: n Vector_mag_def)
qed

text \<open>
  The amended claim C6 at the zero vector, at \<open>(2, 0, 0)\<close>, which is on an axis and has
  the magnitude 2, and at \<open>(1.5 * 2^1023, 1.5 * 2^1023, 0)\<close>, whose magnitude is
  \<open>Infinity\<close>, in one store.
\<close>

theorem normalize_by_magnitude_witness:
  "Vector_normalize
     [\<lparr>x = Fin 0, y = Fin 0, z = Fin 0\<rparr>, \<lparr>x = Fin 2, y = Fin 0, z = Fin 0\<rparr>,
      \<lparr>x = Fin huge, y = Fin huge, z = Fin 0\<rparr>] 0
     = (0, [\<lparr>x = Fin 0, y = Fin 0, z = Fin 0\<rparr>, \<lparr>x = Fin 2, y = Fin 0, z = Fin 0\<rparr>,
            \<lparr>x = Fin huge, y = Fin huge, z = Fin 0\<rparr>]) \<and>
   Vector_mag
     [\<lparr>x = Fin 0, y = Fin 0, z = Fin 0\<rparr>, \<lparr>x = Fin 2, y = Fin 0, z = Fin 0\<rparr>,
      \<lparr>x = Fin huge, y = Fin huge, z = Fin 0\<rparr>] 1 = Fin 2 \<and>
   on_axis \<lparr>x = Fin 2, y = Fin 0, z = Fin 0\<rparr> \<and>
   Vector_normalize
     [\<lparr>x = Fin 0, y = Fin 0, z = Fin 0\<rparr>, \<lparr>x = Fin 2, y = Fin 0, z = Fin 0\<rparr>,
      \<lparr>x = Fin huge, y = Fin huge, z = Fin 0\<rparr>] 1
     = (1, [\<lparr>x = Fin 0, y = Fin 0, z = Fin 0\<rparr>, \<lparr>x = Fin 1, y = Fin 0, z = Fin 0\<rparr>,
            \<lparr>x = Fin huge, y = Fin huge, z = Fin 0\<rparr>]) \<and>
   Vector_mag
     (snd (Vector_normalize
       [\<lparr>x = Fin 0, y = Fin 0, z = Fin 0\<rparr>, \<lparr>x = Fin 2, y = Fin 0, z = Fin 0\<rparr>,
        \<lparr>x = Fin huge, y = Fin huge, z = Fin 0\<rparr>] 1)) 1 = Fin 1 \<and>
   Vector_mag
     [\<lparr>x = Fin 0, y = Fin 0, z = Fin 0\<rparr>, \<lparr>x = Fin 2, y = Fin 0, z = Fin 0\<rparr>,
      \<lparr>x = Fin huge, y = Fin huge, z = Fin 0\<rparr>] 2 = Infinity \<and>
   Vector_normalize
     [\<lparr>x = Fin 0, y = Fin 0, z = Fin 0\<rparr>, \<lparr>x = Fin 2, y = Fin 0, z = Fin 0\<rparr>,
      \<lparr>x = Fin huge, y = Fin huge, z = Fin 0\<rparr>] 2
     = (2, [\<lparr>x = Fin 0, y = Fin 0, z = Fin 0\<rparr>, \<lparr>x = Fin 2, y = Fin 0, z = Fin 0\<rparr>,
            \<lparr>x = Fin huge, y = Fin huge, z = Fin 0\<rparr>])"
proof -
  let ?h = "[\<lparr>x = Fin 0, y = Fin 0, z = Fin 0\<rparr>, \<lparr>x = Fin 2, y = Fin 0, z = Fin 0\<rparr>,
      \<lparr>x = Fin huge, y = Fin huge, z = Fin 0\<rparr>]"
  have v0: "(0::nat) < length ?h" and v1: "(1::nat) < length ?h" and v2: "(2::nat) < length ?h"
    by simp_all
  have z0: "x (?h ! 0) = Fin 0 \<and> y (?h ! 0) = Fin 0 \<and> z (?h ! 0) = Fin 0"
    by simp
  have m1: "Vector_mag ?h 1 = Fin 2"
    by (simp add: Vector_mag_def hypot_axis overflow_bounded)
  have ax: "on_axis \<lparr>x = Fin 2, y = Fin 0, z = Fin 0\<rparr>"
    by (simp add: on_axis_def)
  have m2: "Vector_mag ?h 2 = Infinity"
    by (simp add: Vector_mag_def hypot_overflows)
  have q: "Fin 2 / Fin 2 = Fin 1" "Fin 0 / Fin 2 = Fin 0"
    by simp_all
  from normalize_by_magnitude[OF v0] z0
  have r0: "Vector_normalize ?h 0 = Vector_set ?h 0 (Num (Fin 0)) (Some (Fin 0)) (Some (Fin 0))"
    by blast
  have s0: "Vector_set ?h 0 (Num (Fin 0)) (Some (Fin 0)) (Some (Fin 0)) = (0, ?h)"
    by (simp add: Vector_set_def set_x_def set_y_def set_z_def)
  have f1: "isFinite (Vector_mag ?h 1) \<and> Vector_mag ?h 1 \<noteq> Fin 0"
    by (simp only: m1) simp
  have ax1: "on_axis (?h ! 1)"
    by (simp add: on_axis_def)
  from normalize_by_magnitude[OF v1] f1
  have r1: "Vector_normalize ?h 1
      = (1, ?h[1 := \<lparr>x = x (?h ! 1) / Vector_mag ?h 1, y = y (?h ! 1) / Vector_mag ?h 1,
                       z = z (?h ! 1) / Vector_mag ?h 1\<rparr>])"
    by blast
  from normalize_by_magnitude[OF v1] f1 ax1
  have u1: "Vector_mag (snd (Vector_normalize ?h 1)) 1 = Fin 1"
    by blast
  have e1: "?h[1 := \<lparr>x = x (?h ! 1) / Vector_mag ?h 1, y = y (?h ! 1) / Vector_mag ?h 1,
        z = z (?h ! 1) / Vector_mag ?h 1\<rparr>]
      = [\<lparr>x = Fin 0, y = Fin 0, z = Fin 0\<rparr>, \<lparr>x = Fin 1, y = Fin 0, z = Fin 0\<rparr>,
         \<lparr>x = Fin huge, y = Fin huge, z = Fin 0\<rparr>]"
    unfolding m1 by (simp add: q)
  have nf2: "\<not> isFinite (Vector_mag ?h 2)"
    by (simp only: m2) simp
  from normalize_by_magnitude[OF v2] nf2
  have r2: "Vector_normalize ?h 2 = (2, ?h)"
    by blast
  have n0: "Vector_normalize ?h 0 = (0, ?h)"
    by (simp only: r0 s0)
  have n1: "Vector_normalize ?h 1
      = (1, [\<lparr>x = Fin 0, y = Fin 0, z = Fin 0\<rparr>, \<lparr>x = Fin 1, y = Fin 0, z = Fin 0\<rparr>,
             \<lparr>x = Fin huge, y = Fin huge, z = Fin 0\<rparr>])"
    by (simp only: r1 e1)
  show ?thesis
    using n0 m1 ax n1 u1 m2 r2 by blast
qed

section \<open>The cross product\<close>

lemma two_pow_600_pos: "0 < two_pow_600"
  by (simp add: two_pow_600_def)

lemma two_pow_600_square: "overflow (two_pow_600 * two_pow_600) = Infinity"
proof -
  have "two_pow_600 * two_pow_600 = 2 ^ (600 + 600)"
    unfolding two_pow_600_def power_add ..
  moreover have "(2::real) ^ 1024 \<le> 2 ^ (600 + 600)"
    by (intro power_increasing) simp_all
  ultimately have "2 ^ 1024 \<le> two_pow_600 * two_pow_600"
    by (simp only:)
  then show ?thesis
    by (rule overflow_Infinity)
qed

text \<open>
  Claim C9 says that for every pair of vectors the cross product has dot product 0 with
  both. The vectors \<open>a = (2^600, 2^600, 0)\<close> and \<open>b = (2^600, 0, 2^600)\<close> are finite;
  the products \<open>2^600 * 2^600\<close> overflow, the cross product is
  \<open>(Infinity, -Infinity, -Infinity)\<close> and its dot product with \<open>a\<close> is \<open>NaN\<close>.
\<close>

theorem cross_overflow_counterexample:
  "finite_vec \<lparr>x = Fin two_pow_600, y = Fin two_pow_600, z = Fin 0\<rparr> \<and>
   finite_vec \<lparr>x = Fin two_pow_600, y = Fin 0, z = Fin two_pow_600\<rparr> \<and>
   Vector_cross [\<lparr>x = Fin two_pow_600, y = Fin two_pow_600, z = Fin 0\<rparr>,
                 \<lparr>x = Fin two_pow_600, y = Fin 0, z = Fin two_pow_600\<rparr>] 0 1
     = (2, [\<lparr>x = Fin two_pow_600, y = Fin two_pow_600, z = Fin 0\<rparr>,
            \<lparr>x = Fin two_pow_600, y = Fin 0, z = Fin two_pow_600\<rparr>,
            \<lparr>x = Infinity, y = NegInfinity, z = NegInfinity\<rparr>]) \<and>
   Vector_dot [\<lparr>x = Fin two_pow_600, y = Fin two_pow_600, z = Fin 0\<rparr>,
               \<lparr>x = Fin two_pow_600, y = Fin 0, z = Fin two_pow_600\<rparr>,
               \<lparr>x = Infinity, y = NegInfinity, z = NegInfinity\<rparr>] 2 0 = NaN \<and>
   \<not> eq_number NaN (Fin 0)"
  using two_pow_600_pos
  by (simp add: finite_vec_def Vector_cross_def new_Vector_def dflt_def Vector_dot_def
      minus_number_def signed_inf_def eq_number_def two_pow_600_square)

lemma cross_dot_real:
  fixes a1 a2 a3 b1 b2 b3 :: real
  shows "(a2 * b3 - a3 * b2) * a1 + (a3 * b1 - a1 * b3) * a2 + (a1 * b2 - a2 * b1) * a3 = 0"
    and "(a2 * b3 - a3 * b2) * b1 + (a3 * b1 - a1 * b3) * b2 + (a1 * b2 - a2 * b1) * b3 = 0"
  by (simp_all add: algebra_simps)

lemma abs_mult_le:
  fixes r s :: real
  assumes "\<bar>r\<bar> \<le> A" and "\<bar>s\<bar> \<le> B"
  shows "\<bar>r * s\<bar> \<le> A * B"
proof -
  have "\<bar>r\<bar> * \<bar>s\<bar> \<le> A * B"
    using assms by (intro mult_mono) simp_all
  then show ?thesis
    by (simp add: abs_mult)
qed

lemma Fin_times_exact: "\<bar>r * s\<bar> \<le> 2 ^ 53 \<Longrightarrow> Fin r * Fin s = Fin (r * s)"
  by (simp add: overflow_bounded)

lemma Fin_plus_exact: "\<bar>r + s\<bar> \<le> 2 ^ 53 \<Longrightarrow> Fin r + Fin s = Fin (r + s)"
  by (simp add: overflow_bounded)

lemma Fin_minus_exact: "\<bar>r - s\<bar> \<le> 2 ^ 53 \<Longrightarrow> Fin r - Fin s = Fin (r - s)"
  by (simp add: minus_number_def overflow_bounded)

text \<open>
  With components of absolute value at most \<open>2^16\<close>, no product or sum in
  \<open>a.cross(b).dot(d)\<close> exceeds \<open>2^53\<close>.
\<close>

lemma cross_component_exact:
  fixes p q r s :: real
  assumes "\<bar>p\<bar> \<le> 2 ^ 16" "\<bar>q\<bar> \<le> 2 ^ 16" "\<bar>r\<bar> \<le> 2 ^ 16" "\<bar>s\<bar> \<le> 2 ^ 16"
  shows "Fin p * Fin q - Fin r * Fin s = Fin (p * q - r * s)"
    and "\<bar>p * q - r * s\<bar> \<le> 2 ^ 33"
proof -
  have pq: "\<bar>p * q\<bar> \<le> 2 ^ 16 * 2 ^ 16"
    by (rule abs_mult_le[OF assms(1,2)])
  have rs: "\<bar>r * s\<bar> \<le> 2 ^ 16 * 2 ^ 16"
    by (rule abs_mult_le[OF assms(3,4)])
  have "\<bar>p * q - r * s\<bar> \<le> \<bar>p * q\<bar> + \<bar>r * s\<bar>"
    by (rule abs_triangle_ineq4)
  with pq rs show b: "\<bar>p * q - r * s\<bar> \<le> 2 ^ 33"
    by simp
  from pq have "Fin p * Fin q = Fin (p * q)"
    by (intro Fin_times_exact) simp
  moreover from rs have "Fin r * Fin s = Fin (r * s)"
    by (intro Fin_times_exact) simp
  moreover from b have "Fin (p * q) - Fin (r * s) = Fin (p * q - r * s)"
    by (intro Fin_minus_exact) simp
  ultimately show "Fin p * Fin q - Fin r * Fin s = Fin (p * q - r * s)"
    by simp
qed

lemma dot_exact:
  fixes c1 c2 c3 d1 d2 d3 :: real
  assumes "\<bar>c1\<bar> \<le> 2 ^ 33" "\<bar>c2\<bar> \<le> 2 ^ 33" "\<bar>c3\<bar> \<le> 2 ^ 33"
    and "\<bar>d1\<bar> \<le> 2 ^ 16" "\<bar>d2\<bar> \<le> 2 ^ 16" "\<bar>d3\<bar> \<le> 2 ^ 16"
  shows "Fin c1 * Fin d1 + Fin c2 * Fin d2 + Fin c3 * Fin d3 = Fin (c1 * d1 + c2 * d2 + c3 * d3)"
proof -
  have t: "\<bar>c1 * d1\<bar> \<le> 2 ^ 33 * 2 ^ 16" "\<bar>c2 * d2\<bar> \<le> 2 ^ 33 * 2 ^ 16"
    "\<bar>c3 * d3\<bar> \<le> 2 ^ 33 * 2 ^ 16"
    by (rule abs_mult_le[OF assms(1,4)], rule abs_mult_le[OF assms(2,5)],
        rule abs_mult_le[OF assms(3,6)])
  have m: "Fin c1 * Fin d1 = Fin (c1 * d1)" "Fin c2 * Fin d2 = Fin (c2 * d2)"
    "Fin c3 * Fin d3 = Fin (c3 * d3)"
    using t by (simp_all add: overflow_bounded)
  have "\<bar>c1 * d1 + c2 * d2\<bar> \<le> \<bar>c1 * d1\<bar> + \<bar>c2 * d2\<bar>"
    by (rule abs_triangle_ineq)
  with t have s2: "\<bar>c1 * d1 + c2 * d2\<bar> \<le> 2 ^ 50"
    by simp
  have "\<bar>c1 * d1 + c2 * d2 + c3 * d3\<bar> \<le> \<bar>c1 * d1 + c2 * d2\<bar> + \<bar>c3 * d3\<bar>"
    by (rule abs_triangle_ineq)
  with s2 t have s3: "\<bar>c1 * d1 + c2 * d2 + c3 * d3\<bar> \<le> 2 ^ 53"
    by simp
  have p2: "Fin (c1 * d1) + Fin (c2 * d2) = Fin (c1 * d1 + c2 * d2)"
    using s2 by (intro Fin_plus_exact) simp
  have p3: "Fin (c1 * d1 + c2 * d2) + Fin (c3 * d3) = Fin (c1 * d1 + c2 * d2 + c3 * d3)"
    using s3 by (intro Fin_plus_exact)
  show ?thesis
    by (simp only: m p2 p3)
qed

lemma small_int_Fin: "small_int n \<Longrightarrow> \<exists>r. n = Fin r \<and> \<bar>r\<bar> \<le> 2 ^ 16"
  by (cases n) simp_all

lemma small_int_vec_cases:
  assumes "small_int_vec v"
  obtains a b c where "x v = Fin a" "y v = Fin b" "z v = Fin c"
    "\<bar>a\<bar> \<le> 2 ^ 16" "\<bar>b\<bar> \<le> 2 ^ 16" "\<bar>c\<bar> \<le> 2 ^ 16"
  using assms small_int_Fin[of "x v"] small_int_Fin[of "y v"] small_int_Fin[of "z v"]
  unfolding small_int_vec_def by blast

text \<open>
  Claim C9, amended: for every pair of vectors whose components are integers of absolute
  value at most \<open>2^16\<close>, the cross product has dot product exactly 0 with both: every
  product and sum on the way is an integer of absolute value at most \<open>2^53\<close>, which
  is computed exactly. For other vectors the products are rounded or overflow, and
  nothing is said of the dot products.
\<close>

theorem cross_orthogonal_small_integers:
  "a < length h \<Longrightarrow> b < length h \<Longrightarrow> small_int_vec (h ! a) \<Longrightarrow> small_int_vec (h ! b) \<Longrightarrow>
   Vector_dot (snd (Vector_cross h a b)) (fst (Vector_cross h a b)) a = Fin 0 \<and>
   Vector_dot (snd (Vector_cross h a b)) (fst (Vector_cross h a b)) b = Fin 0"
proof -
  assume va: "a < length h" and vb: "b < length h"
  assume "small_int_vec (h ! a)"
  then obtain a1 a2 a3 where ca: "x (h ! a) = Fin a1" "y (h ! a) = Fin a2" "z (h ! a) = Fin a3"
    and ba: "\<bar>a1\<bar> \<le> 2 ^ 16" "\<bar>a2\<bar> \<le> 2 ^ 16" "\<bar>a3\<bar> \<le> 2 ^ 16"
    by (rule small_int_vec_cases)
  assume "small_int_vec (h ! b)"
  then obtain b1 b2 b3 where cb: "x (h ! b) = Fin b1" "y (h ! b) = Fin b2" "z (h ! b) = Fin b3"
    and bb: "\<bar>b1\<bar> \<le> 2 ^ 16" "\<bar>b2\<bar> \<le> 2 ^ 16" "\<bar>b3\<bar> \<le> 2 ^ 16"
    by (rule small_int_vec_cases)
  note c1 = cross_component_exact[OF ba(2) bb(3) ba(3) bb(2)]
  note c2 = cross_component_exact[OF ba(3) bb(1) ba(1) bb(3)]
  note c3 = cross_component_exact[OF ba(1) bb(2) ba(2) bb(1)]
  have cross: "Vector_cross h a b
      = (length h, h @ [\<lparr>x = Fin (a2 * b3 - a3 * b2), y = Fin (a3 * b1 - a1 * b3),
                          z = Fin (a1 * b2 - a2 * b1)\<rparr>])"
    by (simp only: Vector_cross_def new_Vector_def dflt_def ca cb c1(1) c2(1) c3(1) option.case)
  have "Vector_dot (snd (Vector_cross h a b)) (fst (Vector_cross h a b)) a
      = Fin ((a2 * b3 - a3 * b2) * a1 + (a3 * b1 - a1 * b3) * a2 + (a1 * b2 - a2 * b1) * a3)"
    using va dot_exact[OF c1(2) c2(2) c3(2) ba]
    by (simp add: cross Vector_dot_def nth_append ca)
  moreover have "Vector_dot (snd (Vector_cross h a b)) (fst (Vector_cross h a b)) b
      = Fin ((a2 * b3 - a3 * b2) * b1 + (a3 * b1 - a1 * b3) * b2 + (a1 * b2 - a2 * b1) * b3)"
    using vb dot_exact[OF c1(2) c2(2) c3(2) bb]
    by (simp add: cross Vector_dot_def nth_append cb)
  ultimately show ?thesis
    by (simp only: cross_dot_real)
qed

text \<open>The amended claim C9 at \<open>a = (1, 2, 3)\<close> and \<open>b = (4, 5, 6)\<close>.\<close>

theorem cross_orthogonal_small_integers_witness:
  "small_int_vec ([\<lparr>x = Fin 1, y = Fin 2, z = Fin 3\<rparr>, \<lparr>x = Fin 4, y = Fin 5, z = Fin 6\<rparr>] ! 0) \<and>
   small_int_vec ([\<lparr>x = Fin 1, y = Fin 2, z = Fin 3\<rparr>, \<lparr>x = Fin 4, y = Fin 5, z = Fin 6\<rparr>] ! 1) \<and>
   Vector_cross [\<lparr>x = Fin 1, y = Fin 2, z = Fin 3\<rparr>, \<lparr>x = Fin 4, y = Fin 5, z = Fin 6\<rparr>] 0 1
     = (2, [\<lparr>x = Fin 1, y = Fin 2, z = Fin 3\<rparr>, \<lparr>x = Fin 4, y = Fin 5, z = Fin 6\<rparr>,
            \<lparr>x = Fin (- 3), y = Fin 6, z = Fin (- 3)\<rparr>]) \<and>
   Vector_dot (snd (Vector_cross
       [\<lparr>x = Fin 1, y = Fin 2, z = Fin 3\<rparr>, \<lparr>x = Fin 4, y = Fin 5, z = Fin 6\<rparr>] 0 1))
     (fst (Vector_cross
       [\<lparr>x = Fin 1, y = Fin 2, z = Fin 3\<rparr>, \<lparr>x = Fin 4, y = Fin 5, z = Fin 6\<rparr>] 0 1)) 0 = Fin 0 \<and>
   Vector_dot (snd (Vector_cross
       [\<lparr>x = Fin 1, y = Fin 2, z = Fin 3\<rparr>, \<lparr>x = Fin 4, y = Fin 5, z = Fin 6\<rparr>] 0 1))
     (fst (Vector_cross
       [\<lparr>x = Fin 1, y = Fin 2, z = Fin 3\<rparr>, \<lparr>x = Fin 4, y = Fin 5, z = Fin 6\<rparr>] 0 1)) 1 = Fin 0"
proof -
  let ?h = "[\<lparr>x = Fin 1, y = Fin 2, z = Fin 3\<rparr>, \<lparr>x = Fin 4, y = Fin 5, z = Fin 6\<rparr>]"
  have sa: "small_int_vec (?h ! 0)" and sb: "small_int_vec (?h ! 1)"
    by (simp_all add: small_int_vec_def)
  have va: "(0::nat) < length ?h" and vb: "(1::nat) < length ?h"
    by simp_all
  have cr: "Vector_cross ?h 0 1 = (2, ?h @ [\<lparr>x = Fin (- 3), y = Fin 6, z = Fin (- 3)\<rparr>])"
    by (simp add: Vector_cross_def new_Vector_def dflt_def minus_number_def overflow_bounded)
  show ?thesis
    using sa sb cr cross_orthogonal_small_integers[OF va vb sa sb] by simp
qed

section \<open>The two modules of free functions\<close>

lemma second_module_eq:
  "add_p1 = add_fn"
  "sub_p1 = sub_fn"
  "mult_p1 = mult_fn"
  "div_p1 = div_fn"
  "normalize_p1 = normalize_fn"
  "setMag_p1 = setMag_fn"
  "max_p1 = max_fn"
  "min_p1 = min_fn"
  "equals_p1 = equals_fn"
  "dist_p1 = dist_fn"
  "distSq_p1 = distSq_fn"
  "cross_p1 = cross_fn"
  "dot_p1 = dot_fn"
  "toArray_p1 = toArray_fn"
  "changeOfBasis_p1 = changeOfBasis_fn"
  "lerp_p1 = lerp_fn"
  "angleBetween_p1 = angleBetween_fn"
  "rotate_p1 = rotate_fn"
  "rotateX_p1 = rotateX_fn"
  "rotateY_p1 = rotateY_fn"
  "fromAngle_p1 = fromAngle_fn"
  "fromAngles_p1 = fromAngles_fn"
  "random2D_p1 = random2D_fn"
  "random3D_p1 = random3D_fn"
  "scalarProyection_p1 = scalarProyection_fn"
  by (intro ext; simp only:
      add_fn_def add_p1_def sub_fn_def sub_p1_def mult_fn_def mult_p1_def div_fn_def div_p1_def
      normalize_fn_def normalize_p1_def setMag_fn_def setMag_p1_def max_fn_def max_p1_def
      min_fn_def min_p1_def equals_fn_def equals_p1_def dist_fn_def dist_p1_def distSq_fn_def
      distSq_p1_def cross_fn_def cross_p1_def dot_fn_def dot_p1_def toArray_fn_def
      toArray_p1_def changeOfBasis_fn_def changeOfBasis_p1_def lerp_fn_def lerp_p1_def
      angleBetween_fn_def angleBetween_p1_def rotate_fn_def rotate_p1_def rotateX_fn_def
      rotateX_p1_def rotateY_fn_def rotateY_p1_def fromAngle_fn_def fromAngle_p1_def
      fromAngles_fn_def fromAngles_p1_def random2D_fn_def random2D_p1_def random3D_fn_def
      random3D_p1_def scalarProyection_fn_def scalarProyection_p1_def)+

text \<open>
  Claim C8: each of the twenty-five functions that both modules define, from \<open>add\<close> to
  \<open>scalarProyection\<close>, is the same function in both: on every store and all arguments
  the two return the same reference (or value) and leave the same store.
\<close>

theorem two_modules_agree:
  "add_fn = add_p1 \<and>
   sub_fn = sub_p1 \<and>
   mult_fn = mult_p1 \<and>
   div_fn = div_p1 \<and>
   normalize_fn = normalize_p1 \<and>
   setMag_fn = setMag_p1 \<and>
   max_fn = max_p1 \<and>
   min_fn = min_p1 \<and>
   equals_fn = equals_p1 \<and>
   dist_fn = dist_p1 \<and>
   distSq_fn = distSq_p1 \<and>
   cross_fn = cross_p1 \<and>
   dot_fn = dot_p1 \<and>
   toArray_fn = toArray_p1 \<and>
   changeOfBasis_fn = changeOfBasis_p1 \<and>
   lerp_fn = lerp_p1 \<and>
   angleBetween_fn = angleBetween_p1 \<and>
   rotate_fn = rotate_p1 \<and>
   rotateX_fn = rotateX_p1 \<and>
   rotateY_fn = rotateY_p1 \<and>
   fromAngle_fn = fromAngle_p1 \<and>
   fromAngles_fn = fromAngles_p1 \<and>
   random2D_fn = random2D_p1 \<and>
   random3D_fn = random3D_p1 \<and>
   scalarProyection_fn = scalarProyection_p1"
  by (intro conjI ext) (simp_all only:
      add_fn_def add_p1_def sub_fn_def sub_p1_def mult_fn_def mult_p1_def div_fn_def div_p1_def
      normalize_fn_def normalize_p1_def setMag_fn_def setMag_p1_def max_fn_def max_p1_def
      min_fn_def min_p1_def equals_fn_def equals_p1_def dist_fn_def dist_p1_def distSq_fn_def
      distSq_p1_def cross_fn_def cross_p1_def dot_fn_def dot_p1_def toArray_fn_def
      toArray_p1_def changeOfBasis_fn_def changeOfBasis_p1_def lerp_fn_def lerp_p1_def
      angleBetween_fn_def angleBetween_p1_def rotate_fn_def rotate_p1_def rotateX_fn_def
      rotateX_p1_def rotateY_fn_def rotateY_p1_def fromAngle_fn_def fromAngle_p1_def
      fromAngles_fn_def fromAngles_p1_def random2D_fn_def random2D_p1_def random3D_fn_def
      random3D_p1_def scalarProyection_fn_def scalarProyection_p1_def)

text \<open>Claim C8 at \<open>mult\<close> and \<open>setMag\<close> of the vector \<open>(1, 2, 3)\<close>.\<close>

theorem two_modules_agree_witness:
  "mult_fn [\<lparr>x = Fin 1, y = Fin 2, z = Fin 3\<rparr>] 0 (Fin 2)
     = mult_p1 [\<lparr>x = Fin 1, y = Fin 2, z = Fin 3\<rparr>] 0 (Fin 2) \<and>
   setMag_fn [\<lparr>x = Fin 1, y = Fin 2, z = Fin 3\<rparr>] 0 (Fin 2)
     = setMag_p1 [\<lparr>x = Fin 1, y = Fin 2, z = Fin 3\<rparr>] 0 (Fin 2)"
  by (simp only: two_modules_agree)

section \<open>The free functions leave their arguments alone\<close>

lemma returns_fresh_new: "returns_fresh h (new_Vector h a b c)"
  by (simp add: returns_fresh_def new_Vector_def)

lemma returns_fresh_trans:
  assumes "take (length h) h1 = h" and "returns_fresh h1 res"
  shows "returns_fresh h res"
proof -
  have le: "length h \<le> length h1"
    using assms(1) by (metis length_take min.cobounded1)
  have "take (length h) (snd res) = take (length h) (take (length h1) (snd res))"
    using le by (simp add: min_def)
  also have "\<dots> = h"
    using assms by (simp add: returns_fresh_def)
  finally show ?thesis
    using assms(2) le by (simp add: returns_fresh_def)
qed

lemma basis_args_ext: "take (length h) (snd (basis_args h vi vj vk)) = h"
  by (cases vi; cases vj; cases vk) (simp_all add: basis_args_def new_Vector_def)

text \<open>A mutating method changes no object but its receiver, and returns the receiver.\<close>

lemma Vector_mult_only_this: "\<exists>v. Vector_mult h t k = (t, h[t := v])"
proof (cases "isFinite k")
  case True
  then show ?thesis
    by (simp add: Vector_mult_def Let_def set_x_def set_y_def set_z_def) blast
next
  case False
  then have "Vector_mult h t k = (t, h[t := h ! t])"
    by (simp add: Vector_mult_def)
  then show ?thesis ..
qed

lemma Vector_div_only_this: "\<exists>v. Vector_div h t k = (t, h[t := v])"
proof (cases "\<not> isFinite k \<or> eq_number k (Fin 0)")
  case False
  then show ?thesis
    by (simp add: Vector_div_def Let_def set_x_def set_y_def set_z_def) blast
next
  case True
  then have "Vector_div h t k = (t, h[t := h ! t])"
    by (auto simp add: Vector_div_def)
  then show ?thesis ..
qed

lemma Vector_set_only_this: "\<exists>v. Vector_set h t a y0 z0 = (t, h[t := v])"
  by (cases a; simp add: Vector_set_def Let_def set_x_def set_y_def set_z_def; blast)

lemma Vector_normalize_only_this: "\<exists>v. Vector_normalize h t = (t, h[t := v])"
  using Vector_set_only_this[of h t] Vector_div_only_this[of h t]
  by (simp add: Vector_normalize_def Let_def)

text \<open>A free function that ends in \<open>new Vector(...)\<close> appends one object.\<close>

lemma add_fn_shape: "\<exists>v. add_fn h r a y0 z0 = (length h, h @ [v])"
  by (cases a) (simp_all add: add_fn_def new_Vector_def)

lemma sub_fn_shape: "\<exists>v. sub_fn h r a y0 z0 = (length h, h @ [v])"
  by (cases a) (simp_all add: sub_fn_def new_Vector_def)

lemma div_fn_shape: "\<exists>v. div_fn h r d = (length h, h @ [v])"
  by (simp add: div_fn_def new_Vector_def Let_def)

lemma add_sub_fn_fresh:
  "returns_fresh h (add_fn h r a y0 z0)"
  "returns_fresh h (sub_fn h r a y0 z0)"
  "returns_fresh h (add_static h r a n1 n2)"
  by (cases a; simp add: add_fn_def sub_fn_def add_static_def returns_fresh_new)+

lemma direct_fn_fresh:
  "returns_fresh h (mult_fn h r k)"
  "returns_fresh h (div_fn h r k)"
  "returns_fresh h (normalize_fn h r)"
  "returns_fresh h (max_fn h r q)"
  "returns_fresh h (min_fn h r q)"
  "returns_fresh h (cross_fn h r q)"
  "returns_fresh h (lerp_fn h r q k)"
  "returns_fresh h (rotate_fn h r k)"
  "returns_fresh h (rotateX_fn h r k)"
  "returns_fresh h (rotateY_fn h r k)"
  "returns_fresh h (fromAngle_fn h k)"
  "returns_fresh h (fromAngles_fn h k l)"
  "returns_fresh h (random2D_fn h k)"
  "returns_fresh h (random3D_fn h k l)"
  by (simp_all add: mult_fn_def div_fn_def normalize_fn_def max_fn_def min_fn_def cross_fn_def
      lerp_fn_def rotate_fn_def rotateX_fn_def rotateY_fn_def fromAngle_fn_def fromAngles_fn_def
      random2D_fn_def random3D_fn_def Vector_copy_def returns_fresh_new Let_def)

lemma constants_fresh:
  "returns_fresh h (right_p1 h)"
  "returns_fresh h (left_p1 h)"
  "returns_fresh h (up_p1 h)"
  "returns_fresh h (down_p1 h)"
  "returns_fresh h (forward_p1 h)"
  "returns_fresh h (back_p1 h)"
  "returns_fresh h (zero_p1 h)"
  "returns_fresh h (one_p1 h)"
  "returns_fresh h (createVector_p1 h xo yo zo)"
  by (simp_all add: right_p1_def left_p1_def up_p1_def down_p1_def forward_p1_def back_p1_def
      zero_p1_def one_p1_def createVector_p1_def returns_fresh_new)

text \<open>\<open>setMag\<close> scales the object that its call of \<open>div\<close> allocated.\<close>

lemma setMag_fn_fresh: "returns_fresh h (setMag_fn h r m)"
proof -
  obtain a
    where d: "div_fn h r (Math_hypot (x (h ! r)) (y (h ! r)) (z (h ! r))) = (length h, h @ [a])"
    using div_fn_shape by blast
  obtain w where m: "Vector_mult (h @ [a]) (length h) m = (length h, (h @ [a])[length h := w])"
    using Vector_mult_only_this by blast
  show ?thesis
    by (simp add: setMag_fn_def d m returns_fresh_def)
qed

lemma changeOfBasis_fn_fresh: "returns_fresh h (changeOfBasis_fn h r vi vj vk)"
proof -
  obtain i j k h1 where b: "basis_args h vi vj vk = ((i, j, k), h1)"
    by (metis prod.exhaust)
  have "take (length h) h1 = h"
    using basis_args_ext[of h vi vj vk] by (simp add: b)
  then show ?thesis
    by (simp add: changeOfBasis_fn_def b returns_fresh_trans[OF _ returns_fresh_new])
qed

text \<open>
  \<open>scalarProyection\<close> allocates two differences, normalises and scales the first of
  them, and allocates the sum: three objects after the store it was given.
\<close>

lemma scalarProyection_fn_fresh: "returns_fresh h (scalarProyection_fn h p q r)"
proof -
  obtain a where s1: "sub_fn h q (Vec p) None None = (length h, h @ [a])"
    using sub_fn_shape by blast
  obtain b where s2: "sub_fn (h @ [a]) r (Vec p) None None = (Suc (length h), h @ [a, b])"
    using sub_fn_shape[of "h @ [a]" r "Vec p" None None] by auto
  obtain a' where n: "Vector_normalize (h @ [a, b]) (length h) = (length h, h @ [a', b])"
    using Vector_normalize_only_this[of "h @ [a, b]" "length h"] by auto
  obtain a'' where m: "Vector_mult (h @ [a', b]) (length h)
      (Vector_dot (h @ [a', b]) (Suc (length h)) (length h)) = (length h, h @ [a'', b])"
    using Vector_mult_only_this[of "h @ [a', b]" "length h"] by auto
  obtain c where s3: "add_fn (h @ [a'', b]) p (Vec (length h)) None None
      = (Suc (Suc (length h)), h @ [a'', b, c])"
    using add_fn_shape[of "h @ [a'', b]" p "Vec (length h)" None None] by auto
  show ?thesis
    by (simp add: scalarProyection_fn_def s1 s2 n m s3 returns_fresh_def)
qed

text \<open>
  Claim C7: no free function changes an object that was in the store when it was called,
  and each one that returns a vector returns a newly allocated object. This holds for
  every function of \<open>src/vectorFunctions.ts\<close>, of the second module (its constants
  included) and for the \<open>add\<close> of \<open>src/staticFnVector.ts\<close>; \<open>scalarProyection\<close> and
  \<open>setMag\<close> call mutating methods, on objects they allocated themselves. The functions
  that return a number, a boolean, an array or \<open>undefined\<close> (\<open>equals\<close>, \<open>dist\<close>,
  \<open>distSq\<close>, \<open>dot\<close>, \<open>toArray\<close>, \<open>angleBetween\<close>) contain no assignment and no call
  of a mutating method, and have no store to return.
\<close>

theorem facade_leaves_arguments:
  "returns_fresh h (add_fn h v a yo zo) \<and>
   returns_fresh h (sub_fn h v a yo zo) \<and>
   returns_fresh h (mult_fn h v k) \<and>
   returns_fresh h (div_fn h v k) \<and>
   returns_fresh h (normalize_fn h v) \<and>
   returns_fresh h (setMag_fn h v k) \<and>
   returns_fresh h (max_fn h v w) \<and>
   returns_fresh h (min_fn h v w) \<and>
   returns_fresh h (cross_fn h v w) \<and>
   returns_fresh h (changeOfBasis_fn h v vi vj vk) \<and>
   returns_fresh h (lerp_fn h v w k) \<and>
   returns_fresh h (rotate_fn h v k) \<and>
   returns_fresh h (rotateX_fn h v k) \<and>
   returns_fresh h (rotateY_fn h v k) \<and>
   returns_fresh h (fromAngle_fn h k) \<and>
   returns_fresh h (fromAngles_fn h k l) \<and>
   returns_fresh h (random2D_fn h k) \<and>
   returns_fresh h (random3D_fn h k l) \<and>
   returns_fresh h (scalarProyection_fn h u v w) \<and>
   returns_fresh h (add_p1 h v a yo zo) \<and>
   returns_fresh h (sub_p1 h v a yo zo) \<and>
   returns_fresh h (mult_p1 h v k) \<and>
   returns_fresh h (div_p1 h v k) \<and>
   returns_fresh h (normalize_p1 h v) \<and>
   returns_fresh h (setMag_p1 h v k) \<and>
   returns_fresh h (max_p1 h v w) \<and>
   returns_fresh h (min_p1 h v w) \<and>
   returns_fresh h (cross_p1 h v w) \<and>
   returns_fresh h (changeOfBasis_p1 h v vi vj vk) \<and>
   returns_fresh h (lerp_p1 h v w k) \<and>
   returns_fresh h (rotate_p1 h v k) \<and>
   returns_fresh h (rotateX_p1 h v k) \<and>
   returns_fresh h (rotateY_p1 h v k) \<and>
   returns_fresh h (fromAngle_p1 h k) \<and>
   returns_fresh h (fromAngles_p1 h k l) \<and>
   returns_fresh h (random2D_p1 h k) \<and>
   returns_fresh h (random3D_p1 h k l) \<and>
   returns_fresh h (scalarProyection_p1 h u v w) \<and>
   returns_fresh h (right_p1 h) \<and>
   returns_fresh h (left_p1 h) \<and>
   returns_fresh h (up_p1 h) \<and>
   returns_fresh h (down_p1 h) \<and>
   returns_fresh h (forward_p1 h) \<and>
   returns_fresh h (back_p1 h) \<and>
   returns_fresh h (zero_p1 h) \<and>
   returns_fresh h (one_p1 h) \<and>
   returns_fresh h (createVector_p1 h xo yo zo) \<and>
   returns_fresh h (add_static h v a n1 n2)"
  by (simp add: second_module_eq add_sub_fn_fresh direct_fn_fresh constants_fresh
      setMag_fn_fresh changeOfBasis_fn_fresh scalarProyection_fn_fresh)

text \<open>
  Claim C7 at \<open>scalarProyection\<close> with the vertex \<open>(0, 0, 0)\<close> and the points
  \<open>(2, 0, 0)\<close> and \<open>(1, 1, 0)\<close>: the three objects stay as they were, and the
  projection \<open>(1, 0, 0)\<close> is the last of three objects added.
\<close>

theorem facade_leaves_arguments_witness:
  "scalarProyection_fn
     [\<lparr>x = Fin 0, y = Fin 0, z = Fin 0\<rparr>, \<lparr>x = Fin 2, y = Fin 0, z = Fin 0\<rparr>,
      \<lparr>x = Fin 1, y = Fin 1, z = Fin 0\<rparr>] 0 1 2
     = (5, [\<lparr>x = Fin 0, y = Fin 0, z = Fin 0\<rparr>, \<lparr>x = Fin 2, y = Fin 0, z = Fin 0\<rparr>,
            \<lparr>x = Fin 1, y = Fin 1, z = Fin 0\<rparr>, \<lparr>x = Fin 1, y = Fin 0, z = Fin 0\<rparr>,
            \<lparr>x = Fin 1, y = Fin 1, z = Fin 0\<rparr>, \<lparr>x = Fin 1, y = Fin 0, z = Fin 0\<rparr>]) \<and>
   returns_fresh
     [\<lparr>x = Fin 0, y = Fin 0, z = Fin 0\<rparr>, \<lparr>x = Fin 2, y = Fin 0, z = Fin 0\<rparr>,
      \<lparr>x = Fin 1, y = Fin 1, z = Fin 0\<rparr>]
     (scalarProyection_fn
       [\<lparr>x = Fin 0, y = Fin 0, z = Fin 0\<rparr>, \<lparr>x = Fin 2, y = Fin 0, z = Fin 0\<rparr>,
        \<lparr>x = Fin 1, y = Fin 1, z = Fin 0\<rparr>] 0 1 2)"
proof -
  let ?h = "[\<lparr>x = Fin 0, y = Fin 0, z = Fin 0\<rparr>, \<lparr>x = Fin 2, y = Fin 0, z = Fin 0\<rparr>,
      \<lparr>x = Fin 1, y = Fin 1, z = Fin 0\<rparr>]"
  have two: "sqrt 4 = (2::real)"
    using real_sqrt_abs[of 2] by simp
  have run: "scalarProyection_fn ?h 0 1 2
      = (5, ?h @ [\<lparr>x = Fin 1, y = Fin 0, z = Fin 0\<rparr>, \<lparr>x = Fin 1, y = Fin 1, z = Fin 0\<rparr>,
                  \<lparr>x = Fin 1, y = Fin 0, z = Fin 0\<rparr>])"
    by (simp add: scalarProyection_fn_def sub_fn_def add_fn_def new_Vector_def dflt_def
        Vector_normalize_def Vector_div_def Vector_mult_def Vector_dot_def Math_hypot_def
        is_inf_def eq_number_def minus_number_def set_x_def set_y_def set_z_def Let_def two
        overflow_bounded)
  have "returns_fresh ?h (scalarProyection_fn ?h 0 1 2)"
    using facade_leaves_arguments[of ?h] by blast
  with run show ?thesis
    by simp
qed

section \<open>The free functions against the methods\<close>

text \<open>
  The method is applied to a fresh copy of the first argument, the free function to the
  argument itself, and the objects (or values) the two return are compared.
\<close>

lemmas copy_simps = on_copy_def Vector_copy_eq returned_def Let_def nth_append new_Vector_def
  dflt_def Vector_all_fields

lemma clamp_unit:
  "Fin 0 \<le> alpha \<Longrightarrow> alpha \<le> Fin 1 \<Longrightarrow> Math_min (Math_max alpha (Fin 0)) (Fin 1) = alpha"
  by (cases alpha) (auto simp: less_eq_number_def eq_number_def Math_min_def Math_max_def)

lemma add_mirror:
  "v < length h \<Longrightarrow> valid_arg h a \<Longrightarrow>
   returned (on_copy h v (\<lambda>h1 c. Vector_add h1 c a y0 z0)) = returned (add_fn h v a y0 z0)"
  by (cases a) (simp_all add: valid_arg_def Vector_add_def add_fn_def copy_simps)

lemma sub_mirror:
  "v < length h \<Longrightarrow> valid_arg h a \<Longrightarrow>
   returned (on_copy h v (\<lambda>h1 c. Vector_sub h1 c a y0 z0)) = returned (sub_fn h v a y0 z0)"
  by (cases a) (simp_all add: valid_arg_def Vector_sub_def sub_fn_def copy_simps)

lemma mult_mirror:
  "v < length h \<Longrightarrow>
   returned (on_copy h v (\<lambda>h1 c. Vector_mult h1 c k)) = returned (mult_fn h v k)"
  by (simp add: Vector_mult_def mult_fn_def copy_simps)



text \<open>
  \<open>div\<close>: with a divisor that is zero or not finite both return the components as they
  are; with any other divisor the method divides by it and the free function multiplies
  by its reciprocal.
\<close>

lemma div_mirror_guard:
  "v < length h \<Longrightarrow> d = Fin 0 \<or> \<not> isFinite d \<Longrightarrow>
   returned (on_copy h v (\<lambda>h1 c. Vector_div h1 c d)) = returned (div_fn h v d)"
  by (auto simp add: Vector_div_def div_fn_def copy_simps eq_number_def)

lemma div_shapes:
  "v < length h \<Longrightarrow> isFinite d \<Longrightarrow> d \<noteq> Fin 0 \<Longrightarrow>
   returned (on_copy h v (\<lambda>h1 c. Vector_div h1 c d))
     = \<lparr>x = x (h ! v) / d, y = y (h ! v) / d, z = z (h ! v) / d\<rparr> \<and>
   returned (div_fn h v d)
     = \<lparr>x = x (h ! v) * (Fin 1 / d), y = y (h ! v) * (Fin 1 / d), z = z (h ! v) * (Fin 1 / d)\<rparr>"
  by (simp add: Vector_div_def div_fn_def copy_simps eq_number_def)

lemma normalize_mirror_guard:
  assumes "v < length h" and "Vector_mag h v = Fin 0 \<or> \<not> isFinite (Vector_mag h v)"
  shows "returned (on_copy h v (\<lambda>h1 c. Vector_normalize h1 c)) = returned (normalize_fn h v)"
proof (cases "Vector_mag h v = Fin 0")
  case True
  then have "x (h ! v) = Fin 0" "y (h ! v) = Fin 0" "z (h ! v) = Fin 0"
    by (simp_all add: Vector_mag_def hypot_zero)
  with assms(1) show ?thesis
    by (simp add: Vector_normalize_def normalize_fn_def Vector_set_def div_fn_def eq_number_def
        Math_hypot_def is_inf_def copy_simps)
next
  case False
  with assms(2) have "\<not> isFinite (Vector_mag h v)"
    by blast
  with False assms(1) show ?thesis
    by (simp add: Vector_normalize_def normalize_fn_def Vector_div_def div_fn_def
        Vector_mag_def eq_number_def copy_simps)
qed

lemma setMag_mirror_guard:
  assumes "v < length h" and "Vector_mag h v = Fin 0 \<or> \<not> isFinite (Vector_mag h v)"
  shows "returned (on_copy h v (\<lambda>h1 c. Vector_setMag h1 c k)) = returned (setMag_fn h v k)"
  using assms
  by (auto simp add: Vector_setMag_def setMag_fn_def Vector_mag_def Vector_div_def div_fn_def
      Vector_mult_def copy_simps eq_number_def)

lemma max_mirror:
  "v < length h \<Longrightarrow> w < length h \<Longrightarrow>
   on_copy h v (\<lambda>h1 c. h1 ! Vector_max h1 c w) = returned (max_fn h v w)"
  by (simp add: Vector_max_def max_fn_def Vector_mag_def copy_simps)

lemma min_mirror:
  "v < length h \<Longrightarrow> w < length h \<Longrightarrow>
   on_copy h v (\<lambda>h1 c. h1 ! Vector_min h1 c w) = returned (min_fn h v w)"
  by (simp add: Vector_min_def min_fn_def Vector_mag_def copy_simps)

lemma scalar_mirror:
  "v < length h \<Longrightarrow> w < length h \<Longrightarrow>
   on_copy h v (\<lambda>h1 c. Vector_equals h1 c w) = equals_fn h v w"
  "v < length h \<Longrightarrow> w < length h \<Longrightarrow>
   on_copy h v (\<lambda>h1 c. Vector_dist h1 c w) = dist_fn h v w"
  "v < length h \<Longrightarrow> w < length h \<Longrightarrow>
   on_copy h v (\<lambda>h1 c. Vector_distSq h1 c w) = distSq_fn h v w"
  "v < length h \<Longrightarrow> w < length h \<Longrightarrow>
   on_copy h v (\<lambda>h1 c. Vector_dot h1 c w) = dot_fn h v w"
  "v < length h \<Longrightarrow> on_copy h v (\<lambda>h1 c. Vector_toArray h1 c) = toArray_fn h v"
  by (simp_all add: Vector_equals_def equals_fn_def Vector_dist_def dist_fn_def
      Vector_distSq_def distSq_fn_def Vector_dot_def dot_fn_def Vector_toArray_def
      toArray_fn_def copy_simps)

lemma cross_mirror:
  "v < length h \<Longrightarrow> w < length h \<Longrightarrow>
   returned (on_copy h v (\<lambda>h1 c. Vector_cross h1 c w)) = returned (cross_fn h v w)"
  by (simp add: Vector_cross_def cross_fn_def copy_simps)

lemma lerp_mirror:
  "v < length h \<Longrightarrow> w < length h \<Longrightarrow> Fin 0 \<le> alpha \<Longrightarrow> alpha \<le> Fin 1 \<Longrightarrow>
   returned (on_copy h v (\<lambda>h1 c. Vector_lerp h1 c w alpha)) = returned (lerp_fn h v w alpha)"
  by (simp add: Vector_lerp_def lerp_fn_def copy_simps clamp_unit)

lemma angleBetween_mirror:
  "v < length h \<Longrightarrow> w < length h \<Longrightarrow>
   \<not> eq_number (Vector_mag h v * Vector_mag h w) (Fin 0) \<Longrightarrow>
   angleBetween_fn h v w = Some (on_copy h v (\<lambda>h1 c. Vector_angleBetween h1 c w))"
  by (simp add: Vector_angleBetween_def angleBetween_fn_def Vector_mag_def Vector_dot_def
      copy_simps)

lemma rotate_mirror:
  "v < length h \<Longrightarrow>
   returned (on_copy h v (\<lambda>h1 c. Vector_rotate h1 c k))
     = (returned (rotate_fn h v k))
         \<lparr>x := or_zero (x (returned (rotate_fn h v k))),
          y := or_zero (y (returned (rotate_fn h v k)))\<rparr>"
  "v < length h \<Longrightarrow>
   returned (on_copy h v (\<lambda>h1 c. Vector_rotateX h1 c k))
     = (returned (rotateX_fn h v k))
         \<lparr>y := or_zero (y (returned (rotateX_fn h v k))),
          z := or_zero (z (returned (rotateX_fn h v k)))\<rparr>"
  "v < length h \<Longrightarrow>
   returned (on_copy h v (\<lambda>h1 c. Vector_rotateY h1 c k))
     = (returned (rotateY_fn h v k))
         \<lparr>x := or_zero (x (returned (rotateY_fn h v k))),
          z := or_zero (z (returned (rotateY_fn h v k)))\<rparr>"
  by (simp_all add: Vector_rotate_def rotate_fn_def Vector_rotateX_def rotateX_fn_def
      Vector_rotateY_def rotateY_fn_def copy_simps)


lemma changeOfBasis_mirror:
  "v < length h \<Longrightarrow> valid_opt h vi \<Longrightarrow> valid_opt h vj \<Longrightarrow> valid_opt h vk \<Longrightarrow>
   returned (on_copy h v (\<lambda>h1 c. Vector_changeOfBasis h1 c vi vj vk))
     = returned (changeOfBasis_fn h v vi vj vk)"
  by (cases vi; cases vj; cases vk)
    (simp_all add: valid_opt_def Vector_changeOfBasis_def changeOfBasis_fn_def basis_args_def
      copy_simps)

lemma or_zero_id: "a \<noteq> NaN \<Longrightarrow> or_zero a = a"
  by (simp add: or_zero_def)

lemma rotate_mirror_eq:
  "v < length h \<Longrightarrow> x (returned (rotate_fn h v k)) \<noteq> NaN \<Longrightarrow>
   y (returned (rotate_fn h v k)) \<noteq> NaN \<Longrightarrow>
   returned (on_copy h v (\<lambda>h1 c. Vector_rotate h1 c k)) = returned (rotate_fn h v k)"
  "v < length h \<Longrightarrow> y (returned (rotateX_fn h v k)) \<noteq> NaN \<Longrightarrow>
   z (returned (rotateX_fn h v k)) \<noteq> NaN \<Longrightarrow>
   returned (on_copy h v (\<lambda>h1 c. Vector_rotateX h1 c k)) = returned (rotateX_fn h v k)"
  "v < length h \<Longrightarrow> x (returned (rotateY_fn h v k)) \<noteq> NaN \<Longrightarrow>
   z (returned (rotateY_fn h v k)) \<noteq> NaN \<Longrightarrow>
   returned (on_copy h v (\<lambda>h1 c. Vector_rotateY h1 c k)) = returned (rotateY_fn h v k)"
  by (simp_all add: rotate_mirror or_zero_id)

lemma MIN_VALUE_pos: "0 < Number_MIN_VALUE"
  by (simp add: Number_MIN_VALUE_def)

lemma MIN_VALUE_reciprocal: "overflow (1 / Number_MIN_VALUE) = Infinity"
proof -
  have "(2::real) ^ 1024 \<le> 2 ^ 1074"
    by (intro power_increasing) simp_all
  then have "2 ^ 1024 \<le> 1 / Number_MIN_VALUE"
    by (simp only: Number_MIN_VALUE_def divide_divide_eq_right mult_1)
  then show ?thesis
    by (rule overflow_Infinity)
qed

lemma MIN_VALUE_hypot:
  "Math_hypot (Fin Number_MIN_VALUE) (Fin 0) (Fin 0) = Fin Number_MIN_VALUE"
proof -
  have "Number_MIN_VALUE \<le> 1"
    by (simp add: Number_MIN_VALUE_def)
  then have "\<bar>Number_MIN_VALUE\<bar> \<le> 2 ^ 53"
    using MIN_VALUE_pos by simp
  then show ?thesis
    using MIN_VALUE_pos by (simp add: hypot_axis overflow_bounded)
qed

text \<open>
  Claim C3 says that every free function returns what the method of the same name makes
  of a fresh copy, \<open>rotate\<close> with its coercion to zero included. The free \<open>rotate\<close>
  has no \<open>|| 0\<close>: for \<open>(Infinity, 0, 0)\<close> rotated by the angle 0 the method stores
  \<open>y = 0\<close> and the function returns \<open>y = NaN\<close>. The free \<open>div\<close> multiplies by the
  reciprocal of the divisor where the method divides: for \<open>(0, 1, 0)\<close> and the divisor
  \<open>Number.MIN_VALUE\<close> the reciprocal is \<open>Infinity\<close>, the method leaves
  \<open>(0, Infinity, 0)\<close> and the function returns \<open>(NaN, Infinity, NaN)\<close>. The free
  \<open>normalize\<close> and \<open>setMag\<close> go through the free \<open>div\<close>: for
  \<open>(Number.MIN_VALUE, 0, 0)\<close> the methods leave \<open>(1, 0, 0)\<close> and the functions return
  \<open>(Infinity, NaN, NaN)\<close>.
\<close>

theorem facade_mirror_counterexample:
  "Vector_copy [\<lparr>x = Infinity, y = Fin 0, z = Fin 0\<rparr>] 0
     = (1, [\<lparr>x = Infinity, y = Fin 0, z = Fin 0\<rparr>, \<lparr>x = Infinity, y = Fin 0, z = Fin 0\<rparr>]) \<and>
   Vector_rotate [\<lparr>x = Infinity, y = Fin 0, z = Fin 0\<rparr>, \<lparr>x = Infinity, y = Fin 0, z = Fin 0\<rparr>]
       1 (Fin 0)
     = (1, [\<lparr>x = Infinity, y = Fin 0, z = Fin 0\<rparr>, \<lparr>x = Infinity, y = Fin 0, z = Fin 0\<rparr>]) \<and>
   rotate_fn [\<lparr>x = Infinity, y = Fin 0, z = Fin 0\<rparr>] 0 (Fin 0)
     = (1, [\<lparr>x = Infinity, y = Fin 0, z = Fin 0\<rparr>, \<lparr>x = Infinity, y = NaN, z = Fin 0\<rparr>]) \<and>
   Vector_copy [\<lparr>x = Fin 0, y = Fin 1, z = Fin 0\<rparr>] 0
     = (1, [\<lparr>x = Fin 0, y = Fin 1, z = Fin 0\<rparr>, \<lparr>x = Fin 0, y = Fin 1, z = Fin 0\<rparr>]) \<and>
   Vector_div [\<lparr>x = Fin 0, y = Fin 1, z = Fin 0\<rparr>, \<lparr>x = Fin 0, y = Fin 1, z = Fin 0\<rparr>]
       1 (Fin Number_MIN_VALUE)
     = (1, [\<lparr>x = Fin 0, y = Fin 1, z = Fin 0\<rparr>, \<lparr>x = Fin 0, y = Infinity, z = Fin 0\<rparr>]) \<and>
   div_fn [\<lparr>x = Fin 0, y = Fin 1, z = Fin 0\<rparr>] 0 (Fin Number_MIN_VALUE)
     = (1, [\<lparr>x = Fin 0, y = Fin 1, z = Fin 0\<rparr>, \<lparr>x = NaN, y = Infinity, z = NaN\<rparr>]) \<and>
   Vector_copy [\<lparr>x = Fin Number_MIN_VALUE, y = Fin 0, z = Fin 0\<rparr>] 0
     = (1, [\<lparr>x = Fin Number_MIN_VALUE, y = Fin 0, z = Fin 0\<rparr>,
            \<lparr>x = Fin Number_MIN_VALUE, y = Fin 0, z = Fin 0\<rparr>]) \<and>
   Vector_normalize [\<lparr>x = Fin Number_MIN_VALUE, y = Fin 0, z = Fin 0\<rparr>,
            \<lparr>x = Fin Number_MIN_VALUE, y = Fin 0, z = Fin 0\<rparr>] 1
     = (1, [\<lparr>x = Fin Number_MIN_VALUE, y = Fin 0, z = Fin 0\<rparr>,
            \<lparr>x = Fin 1, y = Fin 0, z = Fin 0\<rparr>]) \<and>
   normalize_fn [\<lparr>x = Fin Number_MIN_VALUE, y = Fin 0, z = Fin 0\<rparr>] 0
     = (1, [\<lparr>x = Fin Number_MIN_VALUE, y = Fin 0, z = Fin 0\<rparr>,
            \<lparr>x = Infinity, y = NaN, z = NaN\<rparr>]) \<and>
   Vector_setMag [\<lparr>x = Fin Number_MIN_VALUE, y = Fin 0, z = Fin 0\<rparr>,
            \<lparr>x = Fin Number_MIN_VALUE, y = Fin 0, z = Fin 0\<rparr>] 1 (Fin 1)
     = (1, [\<lparr>x = Fin Number_MIN_VALUE, y = Fin 0, z = Fin 0\<rparr>,
            \<lparr>x = Fin 1, y = Fin 0, z = Fin 0\<rparr>]) \<and>
   setMag_fn [\<lparr>x = Fin Number_MIN_VALUE, y = Fin 0, z = Fin 0\<rparr>] 0 (Fin 1)
     = (1, [\<lparr>x = Fin Number_MIN_VALUE, y = Fin 0, z = Fin 0\<rparr>,
            \<lparr>x = Infinity, y = NaN, z = NaN\<rparr>])"
  using MIN_VALUE_pos
  by (simp add: Vector_copy_eq Vector_rotate_def rotate_fn_def Vector_div_def div_fn_def
      Vector_normalize_def normalize_fn_def Vector_setMag_def setMag_fn_def Vector_mag_def
      Vector_mult_def MIN_VALUE_hypot new_Vector_def dflt_def Let_def set_x_def set_y_def
      set_z_def eq_number_def or_zero_def signed_inf_def MIN_VALUE_reciprocal)

text \<open>
  The free \<open>lerp\<close> applies \<open>alpha\<close> as it is given, although its doc comment, the one
  of the method, says that \<open>alpha\<close> is constrained to \<open>[0, 1]\<close>: from \<open>(0, 0, 0)\<close>
  towards \<open>(1, 1, 1)\<close> with \<open>alpha = 2\<close> the method stops at \<open>(1, 1, 1)\<close> and the
  function returns \<open>(2, 2, 2)\<close>.
\<close>

lemma lerp_fn_unclamped:
  "Vector_lerp [\<lparr>x = Fin 0, y = Fin 0, z = Fin 0\<rparr>, \<lparr>x = Fin 1, y = Fin 1, z = Fin 1\<rparr>,
            \<lparr>x = Fin 0, y = Fin 0, z = Fin 0\<rparr>] 2 1 (Fin 2)
     = (2, [\<lparr>x = Fin 0, y = Fin 0, z = Fin 0\<rparr>, \<lparr>x = Fin 1, y = Fin 1, z = Fin 1\<rparr>,
            \<lparr>x = Fin 1, y = Fin 1, z = Fin 1\<rparr>]) \<and>
   lerp_fn [\<lparr>x = Fin 0, y = Fin 0, z = Fin 0\<rparr>, \<lparr>x = Fin 1, y = Fin 1, z = Fin 1\<rparr>] 0 1 (Fin 2)
     = (2, [\<lparr>x = Fin 0, y = Fin 0, z = Fin 0\<rparr>, \<lparr>x = Fin 1, y = Fin 1, z = Fin 1\<rparr>,
            \<lparr>x = Fin 2, y = Fin 2, z = Fin 2\<rparr>])"
  by (simp add: Vector_lerp_def lerp_fn_def new_Vector_def dflt_def Let_def set_x_def set_y_def
      set_z_def Math_min_def Math_max_def minus_number_def overflow_bounded)

text \<open>
  Claim C3, amended: for \<open>add\<close>, \<open>sub\<close>, \<open>mult\<close>, \<open>max\<close>, \<open>min\<close>, \<open>equals\<close>,
  \<open>dist\<close>, \<open>distSq\<close>, \<open>cross\<close>, \<open>dot\<close>, \<open>toArray\<close> and \<open>changeOfBasis\<close> and all
  arguments, the free function of \<open>src/vectorFunctions.ts\<close> returns what the method
  returns on a fresh copy of the vector: the two evaluate the same expressions.
  \<open>lerp\<close> does so when \<open>0 \<le> alpha \<le> 1\<close>, and \<open>angleBetween\<close> when the product of
  the magnitudes is not 0. What \<open>rotate\<close>, \<open>rotateX\<close> and \<open>rotateY\<close> leave in the
  copy is what the free function returns with \<open>|| 0\<close> applied to the two rotated
  components, hence the same whenever neither of the two is \<open>NaN\<close>. \<open>div\<close> agrees
  with the method when the divisor is 0 or not finite, and \<open>normalize\<close> and \<open>setMag\<close>
  when the magnitude is; for any other divisor the method divides each component by it
  and the free function multiplies each component by its reciprocal, and nothing is
  said of whether the two results are the same number.
\<close>

theorem facade_mirrors_entity:
  "v < length h \<Longrightarrow> w < length h \<Longrightarrow> valid_arg h a \<Longrightarrow>
   valid_opt h vi \<Longrightarrow> valid_opt h vj \<Longrightarrow> valid_opt h vk \<Longrightarrow>
   returned (on_copy h v (\<lambda>h1 c. Vector_add h1 c a yo zo)) = returned (add_fn h v a yo zo) \<and>
   returned (on_copy h v (\<lambda>h1 c. Vector_sub h1 c a yo zo)) = returned (sub_fn h v a yo zo) \<and>
   returned (on_copy h v (\<lambda>h1 c. Vector_mult h1 c k)) = returned (mult_fn h v k) \<and>
   on_copy h v (\<lambda>h1 c. h1 ! Vector_max h1 c w) = returned (max_fn h v w) \<and>
   on_copy h v (\<lambda>h1 c. h1 ! Vector_min h1 c w) = returned (min_fn h v w) \<and>
   on_copy h v (\<lambda>h1 c. Vector_equals h1 c w) = equals_fn h v w \<and>
   on_copy h v (\<lambda>h1 c. Vector_dist h1 c w) = dist_fn h v w \<and>
   on_copy h v (\<lambda>h1 c. Vector_distSq h1 c w) = distSq_fn h v w \<and>
   returned (on_copy h v (\<lambda>h1 c. Vector_cross h1 c w)) = returned (cross_fn h v w) \<and>
   on_copy h v (\<lambda>h1 c. Vector_dot h1 c w) = dot_fn h v w \<and>
   on_copy h v (\<lambda>h1 c. Vector_toArray h1 c) = toArray_fn h v \<and>
   returned (on_copy h v (\<lambda>h1 c. Vector_changeOfBasis h1 c vi vj vk))
     = returned (changeOfBasis_fn h v vi vj vk) \<and>
   (Fin 0 \<le> alpha \<and> alpha \<le> Fin 1 \<longrightarrow>
      returned (on_copy h v (\<lambda>h1 c. Vector_lerp h1 c w alpha)) = returned (lerp_fn h v w alpha)) \<and>
   (\<not> eq_number (Vector_mag h v * Vector_mag h w) (Fin 0) \<longrightarrow>
      angleBetween_fn h v w = Some (on_copy h v (\<lambda>h1 c. Vector_angleBetween h1 c w))) \<and>
   returned (on_copy h v (\<lambda>h1 c. Vector_rotate h1 c k))
     = (returned (rotate_fn h v k))
         \<lparr>x := or_zero (x (returned (rotate_fn h v k))),
          y := or_zero (y (returned (rotate_fn h v k)))\<rparr> \<and>
   returned (on_copy h v (\<lambda>h1 c. Vector_rotateX h1 c k))
     = (returned (rotateX_fn h v k))
         \<lparr>y := or_zero (y (returned (rotateX_fn h v k))),
          z := or_zero (z (returned (rotateX_fn h v k)))\<rparr> \<and>
   returned (on_copy h v (\<lambda>h1 c. Vector_rotateY h1 c k))
     = (returned (rotateY_fn h v k))
         \<lparr>x := or_zero (x (returned (rotateY_fn h v k))),
          z := or_zero (z (returned (rotateY_fn h v k)))\<rparr> \<and>
   (x (returned (rotate_fn h v k)) \<noteq> NaN \<and> y (returned (rotate_fn h v k)) \<noteq> NaN \<longrightarrow>
      returned (on_copy h v (\<lambda>h1 c. Vector_rotate h1 c k)) = returned (rotate_fn h v k)) \<and>
   (y (returned (rotateX_fn h v k)) \<noteq> NaN \<and> z (returned (rotateX_fn h v k)) \<noteq> NaN \<longrightarrow>
      returned (on_copy h v (\<lambda>h1 c. Vector_rotateX h1 c k)) = returned (rotateX_fn h v k)) \<and>
   (x (returned (rotateY_fn h v k)) \<noteq> NaN \<and> z (returned (rotateY_fn h v k)) \<noteq> NaN \<longrightarrow>
      returned (on_copy h v (\<lambda>h1 c. Vector_rotateY h1 c k)) = returned (rotateY_fn h v k)) \<and>
   (d = Fin 0 \<or> \<not> isFinite d \<longrightarrow>
      returned (on_copy h v (\<lambda>h1 c. Vector_div h1 c d)) = returned (div_fn h v d)) \<and>
   (isFinite d \<and> d \<noteq> Fin 0 \<longrightarrow>
      returned (on_copy h v (\<lambda>h1 c. Vector_div h1 c d))
        = \<lparr>x = x (h ! v) / d, y = y (h ! v) / d, z = z (h ! v) / d\<rparr> \<and>
      returned (div_fn h v d)
        = \<lparr>x = x (h ! v) * (Fin 1 / d), y = y (h ! v) * (Fin 1 / d),
           z = z (h ! v) * (Fin 1 / d)\<rparr>) \<and>
   (Vector_mag h v = Fin 0 \<or> \<not> isFinite (Vector_mag h v) \<longrightarrow>
      returned (on_copy h v (\<lambda>h1 c. Vector_normalize h1 c)) = returned (normalize_fn h v) \<and>
      returned (on_copy h v (\<lambda>h1 c. Vector_setMag h1 c k)) = returned (setMag_fn h v k))"
proof -
  assume valid: "v < length h" "w < length h" "valid_arg h a"
    "valid_opt h vi" "valid_opt h vj" "valid_opt h vk"
  note arith = add_mirror[OF valid(1) valid(3)] sub_mirror[OF valid(1) valid(3)]
    mult_mirror[OF valid(1)]
  note pairs = max_mirror[OF valid(1,2)] min_mirror[OF valid(1,2)]
    scalar_mirror(1-4)[OF valid(1,2)]
    scalar_mirror(5)[OF valid(1)] cross_mirror[OF valid(1,2)]
    changeOfBasis_mirror[OF valid(1) valid(4,5,6)]
  note guarded = lerp_mirror[OF valid(1,2)] angleBetween_mirror[OF valid(1,2)]
  note rot = rotate_mirror[OF valid(1)] rotate_mirror_eq[OF valid(1)]
  note divs = div_mirror_guard[OF valid(1)] normalize_mirror_guard[OF valid(1)]
    setMag_mirror_guard[OF valid(1)]
  have shapes: "isFinite d \<and> d \<noteq> Fin 0 \<longrightarrow>
      returned (on_copy h v (\<lambda>h1 c. Vector_div h1 c d))
        = \<lparr>x = x (h ! v) / d, y = y (h ! v) / d, z = z (h ! v) / d\<rparr> \<and>
      returned (div_fn h v d)
        = \<lparr>x = x (h ! v) * (Fin 1 / d), y = y (h ! v) * (Fin 1 / d),
           z = z (h ! v) * (Fin 1 / d)\<rparr>"
    using div_shapes[OF valid(1), of d] by blast
  show ?thesis
    by (intro conjI impI shapes[rule_format])
      (simp_all add: arith pairs guarded rot or_zero_id divs)
qed

text \<open>
  The amended claim C3 at \<open>v = (1, 0, 0)\<close> and \<open>w = (0, 1, 0)\<close>, with \<open>alpha = 1/2\<close>,
  the angle 0 and the divisors 0 and 2, and at the zero vector for \<open>normalize\<close> and
  \<open>setMag\<close>: the hypotheses hold there, and the method on the copy returns the value
  that the free function returns.
\<close>

theorem facade_mirrors_entity_witness:
  "(0::nat) < length [\<lparr>x = Fin 1, y = Fin 0, z = Fin 0\<rparr>, \<lparr>x = Fin 0, y = Fin 1, z = Fin 0\<rparr>,
       \<lparr>x = Fin 0, y = Fin 0, z = Fin 0\<rparr>] \<and>
   valid_arg [\<lparr>x = Fin 1, y = Fin 0, z = Fin 0\<rparr>, \<lparr>x = Fin 0, y = Fin 1, z = Fin 0\<rparr>,
       \<lparr>x = Fin 0, y = Fin 0, z = Fin 0\<rparr>] (Vec 1) \<and>
   valid_opt [\<lparr>x = Fin 1, y = Fin 0, z = Fin 0\<rparr>, \<lparr>x = Fin 0, y = Fin 1, z = Fin 0\<rparr>,
       \<lparr>x = Fin 0, y = Fin 0, z = Fin 0\<rparr>] None \<and>
   Fin 0 \<le> Fin (1 / 2) \<and> Fin (1 / 2) \<le> Fin 1 \<and>
   \<not> eq_number
       (Vector_mag [\<lparr>x = Fin 1, y = Fin 0, z = Fin 0\<rparr>, \<lparr>x = Fin 0, y = Fin 1, z = Fin 0\<rparr>,
          \<lparr>x = Fin 0, y = Fin 0, z = Fin 0\<rparr>] 0
        * Vector_mag [\<lparr>x = Fin 1, y = Fin 0, z = Fin 0\<rparr>, \<lparr>x = Fin 0, y = Fin 1, z = Fin 0\<rparr>,
          \<lparr>x = Fin 0, y = Fin 0, z = Fin 0\<rparr>] 1)
       (Fin 0) \<and>
   Vector_mag [\<lparr>x = Fin 1, y = Fin 0, z = Fin 0\<rparr>, \<lparr>x = Fin 0, y = Fin 1, z = Fin 0\<rparr>,
       \<lparr>x = Fin 0, y = Fin 0, z = Fin 0\<rparr>] 2 = Fin 0 \<and>
   returned (rotate_fn [\<lparr>x = Fin 1, y = Fin 0, z = Fin 0\<rparr>, \<lparr>x = Fin 0, y = Fin 1, z = Fin 0\<rparr>,
       \<lparr>x = Fin 0, y = Fin 0, z = Fin 0\<rparr>] 0 (Fin 0)) = \<lparr>x = Fin 1, y = Fin 0, z = Fin 0\<rparr> \<and>
   returned (rotateX_fn [\<lparr>x = Fin 1, y = Fin 0, z = Fin 0\<rparr>, \<lparr>x = Fin 0, y = Fin 1, z = Fin 0\<rparr>,
       \<lparr>x = Fin 0, y = Fin 0, z = Fin 0\<rparr>] 0 (Fin 0)) = \<lparr>x = Fin 1, y = Fin 0, z = Fin 0\<rparr> \<and>
   returned (rotateY_fn [\<lparr>x = Fin 1, y = Fin 0, z = Fin 0\<rparr>, \<lparr>x = Fin 0, y = Fin 1, z = Fin 0\<rparr>,
       \<lparr>x = Fin 0, y = Fin 0, z = Fin 0\<rparr>] 0 (Fin 0)) = \<lparr>x = Fin 1, y = Fin 0, z = Fin 0\<rparr> \<and>
   returned (on_copy [\<lparr>x = Fin 1, y = Fin 0, z = Fin 0\<rparr>, \<lparr>x = Fin 0, y = Fin 1, z = Fin 0\<rparr>,
       \<lparr>x = Fin 0, y = Fin 0, z = Fin 0\<rparr>] 0
       (\<lambda>h1 c. Vector_add h1 c (Vec 1) None None)) = \<lparr>x = Fin 1, y = Fin 1, z = Fin 0\<rparr> \<and>
   returned (on_copy [\<lparr>x = Fin 1, y = Fin 0, z = Fin 0\<rparr>, \<lparr>x = Fin 0, y = Fin 1, z = Fin 0\<rparr>,
       \<lparr>x = Fin 0, y = Fin 0, z = Fin 0\<rparr>] 0
       (\<lambda>h1 c. Vector_lerp h1 c 1 (Fin (1 / 2))))
     = \<lparr>x = Fin (1 / 2), y = Fin (1 / 2), z = Fin 0\<rparr> \<and>
   on_copy [\<lparr>x = Fin 1, y = Fin 0, z = Fin 0\<rparr>, \<lparr>x = Fin 0, y = Fin 1, z = Fin 0\<rparr>,
       \<lparr>x = Fin 0, y = Fin 0, z = Fin 0\<rparr>] 0
       (\<lambda>h1 c. Vector_angleBetween h1 c 1) = Fin (pi / 2) \<and>
   returned (on_copy [\<lparr>x = Fin 1, y = Fin 0, z = Fin 0\<rparr>, \<lparr>x = Fin 0, y = Fin 1, z = Fin 0\<rparr>,
       \<lparr>x = Fin 0, y = Fin 0, z = Fin 0\<rparr>] 0
       (\<lambda>h1 c. Vector_rotate h1 c (Fin 0))) = \<lparr>x = Fin 1, y = Fin 0, z = Fin 0\<rparr> \<and>
   returned (on_copy [\<lparr>x = Fin 1, y = Fin 0, z = Fin 0\<rparr>, \<lparr>x = Fin 0, y = Fin 1, z = Fin 0\<rparr>,
       \<lparr>x = Fin 0, y = Fin 0, z = Fin 0\<rparr>] 0
       (\<lambda>h1 c. Vector_rotateX h1 c (Fin 0))) = \<lparr>x = Fin 1, y = Fin 0, z = Fin 0\<rparr> \<and>
   returned (on_copy [\<lparr>x = Fin 1, y = Fin 0, z = Fin 0\<rparr>, \<lparr>x = Fin 0, y = Fin 1, z = Fin 0\<rparr>,
       \<lparr>x = Fin 0, y = Fin 0, z = Fin 0\<rparr>] 0
       (\<lambda>h1 c. Vector_rotateY h1 c (Fin 0))) = \<lparr>x = Fin 1, y = Fin 0, z = Fin 0\<rparr> \<and>
   returned (on_copy [\<lparr>x = Fin 1, y = Fin 0, z = Fin 0\<rparr>, \<lparr>x = Fin 0, y = Fin 1, z = Fin 0\<rparr>,
       \<lparr>x = Fin 0, y = Fin 0, z = Fin 0\<rparr>] 0
       (\<lambda>h1 c. Vector_div h1 c (Fin 0))) = \<lparr>x = Fin 1, y = Fin 0, z = Fin 0\<rparr> \<and>
   returned (on_copy [\<lparr>x = Fin 1, y = Fin 0, z = Fin 0\<rparr>, \<lparr>x = Fin 0, y = Fin 1, z = Fin 0\<rparr>,
       \<lparr>x = Fin 0, y = Fin 0, z = Fin 0\<rparr>] 0
       (\<lambda>h1 c. Vector_div h1 c (Fin 2))) = \<lparr>x = Fin (1 / 2), y = Fin 0, z = Fin 0\<rparr> \<and>
   returned (div_fn [\<lparr>x = Fin 1, y = Fin 0, z = Fin 0\<rparr>, \<lparr>x = Fin 0, y = Fin 1, z = Fin 0\<rparr>,
       \<lparr>x = Fin 0, y = Fin 0, z = Fin 0\<rparr>] 0 (Fin 2)) = \<lparr>x = Fin (1 / 2), y = Fin 0, z = Fin 0\<rparr> \<and>
   returned (on_copy [\<lparr>x = Fin 1, y = Fin 0, z = Fin 0\<rparr>, \<lparr>x = Fin 0, y = Fin 1, z = Fin 0\<rparr>,
       \<lparr>x = Fin 0, y = Fin 0, z = Fin 0\<rparr>] 2
       (\<lambda>h1 c. Vector_normalize h1 c)) = \<lparr>x = Fin 0, y = Fin 0, z = Fin 0\<rparr> \<and>
   returned (on_copy [\<lparr>x = Fin 1, y = Fin 0, z = Fin 0\<rparr>, \<lparr>x = Fin 0, y = Fin 1, z = Fin 0\<rparr>,
       \<lparr>x = Fin 0, y = Fin 0, z = Fin 0\<rparr>] 2
       (\<lambda>h1 c. Vector_setMag h1 c (Fin 0))) = \<lparr>x = Fin 0, y = Fin 0, z = Fin 0\<rparr>"
proof -
  let ?h = "[\<lparr>x = Fin 1, y = Fin 0, z = Fin 0\<rparr>, \<lparr>x = Fin 0, y = Fin 1, z = Fin 0\<rparr>,
      \<lparr>x = Fin 0, y = Fin 0, z = Fin 0\<rparr>]"
  have v0: "(0::nat) < length ?h" and v1: "(1::nat) < length ?h" and v2: "(2::nat) < length ?h"
    by simp_all
  have va: "valid_arg ?h (Vec 1)" and vo: "valid_opt ?h None"
    by (simp_all add: valid_arg_def valid_opt_def)
  have al: "Fin 0 \<le> Fin (1 / 2) \<and> Fin (1 / 2) \<le> Fin 1"
    by (simp add: less_eq_number_def)
  have mg: "\<not> eq_number (Vector_mag ?h 0 * Vector_mag ?h 1) (Fin 0)"
    by (simp add: Vector_mag_def Math_hypot_def is_inf_def eq_number_def)
  have m2: "Vector_mag ?h 2 = Fin 0"
    by (simp add: Vector_mag_def Math_hypot_def is_inf_def)
  have fn: "returned (add_fn ?h 0 (Vec 1) None None) = \<lparr>x = Fin 1, y = Fin 1, z = Fin 0\<rparr>"
    "returned (lerp_fn ?h 0 1 (Fin (1 / 2))) = \<lparr>x = Fin (1 / 2), y = Fin (1 / 2), z = Fin 0\<rparr>"
    "angleBetween_fn ?h 0 1 = Some (Fin (pi / 2))"
    "returned (rotate_fn ?h 0 (Fin 0)) = \<lparr>x = Fin 1, y = Fin 0, z = Fin 0\<rparr>"
    "returned (rotateX_fn ?h 0 (Fin 0)) = \<lparr>x = Fin 1, y = Fin 0, z = Fin 0\<rparr>"
    "returned (rotateY_fn ?h 0 (Fin 0)) = \<lparr>x = Fin 1, y = Fin 0, z = Fin 0\<rparr>"
    "returned (div_fn ?h 0 (Fin 0)) = \<lparr>x = Fin 1, y = Fin 0, z = Fin 0\<rparr>"
    "returned (normalize_fn ?h 2) = \<lparr>x = Fin 0, y = Fin 0, z = Fin 0\<rparr>"
    "returned (setMag_fn ?h 2 (Fin 0)) = \<lparr>x = Fin 0, y = Fin 0, z = Fin 0\<rparr>"
    by (simp_all add: returned_def add_fn_def lerp_fn_def angleBetween_fn_def rotate_fn_def
        rotateX_fn_def rotateY_fn_def div_fn_def normalize_fn_def setMag_fn_def Vector_mult_def
        new_Vector_def dflt_def Vector_mag_def Vector_dot_def set_x_def set_y_def set_z_def
        Math_hypot_def is_inf_def eq_number_def Math_max_def Math_min_def minus_number_def
        Let_def overflow_bounded)
  note m = facade_mirrors_entity[OF v0 v1 va vo vo vo,
      where yo = None and zo = None and k = "Fin 0" and alpha = "Fin (1 / 2)" and d = "Fin 0"]
  note m' = facade_mirrors_entity[OF v0 v1 va vo vo vo,
      where yo = None and zo = None and k = "Fin 0" and alpha = "Fin (1 / 2)" and d = "Fin 2"]
  note m'' = facade_mirrors_entity[OF v2 v1 va vo vo vo,
      where yo = None and zo = None and k = "Fin 0" and alpha = "Fin (1 / 2)" and d = "Fin 0"]
  have nn:
    "x (returned (rotate_fn ?h 0 (Fin 0))) \<noteq> NaN \<and>
     y (returned (rotate_fn ?h 0 (Fin 0))) \<noteq> NaN"
    "y (returned (rotateX_fn ?h 0 (Fin 0))) \<noteq> NaN \<and>
     z (returned (rotateX_fn ?h 0 (Fin 0))) \<noteq> NaN"
    "x (returned (rotateY_fn ?h 0 (Fin 0))) \<noteq> NaN \<and>
     z (returned (rotateY_fn ?h 0 (Fin 0))) \<noteq> NaN"
    by (simp_all add: fn)
  have r_add: "returned (on_copy ?h 0 (\<lambda>h1 c. Vector_add h1 c (Vec 1) None None))
      = returned (add_fn ?h 0 (Vec 1) None None)"
    using m by blast
  have r_lerp: "returned (on_copy ?h 0 (\<lambda>h1 c. Vector_lerp h1 c 1 (Fin (1 / 2))))
      = returned (lerp_fn ?h 0 1 (Fin (1 / 2)))"
    using m al by blast
  have r_angle: "angleBetween_fn ?h 0 1 = Some (on_copy ?h 0 (\<lambda>h1 c. Vector_angleBetween h1 c 1))"
    using m mg by blast
  have r_rot: "returned (on_copy ?h 0 (\<lambda>h1 c. Vector_rotate h1 c (Fin 0)))
      = returned (rotate_fn ?h 0 (Fin 0))"
    "returned (on_copy ?h 0 (\<lambda>h1 c. Vector_rotateX h1 c (Fin 0)))
      = returned (rotateX_fn ?h 0 (Fin 0))"
    "returned (on_copy ?h 0 (\<lambda>h1 c. Vector_rotateY h1 c (Fin 0)))
      = returned (rotateY_fn ?h 0 (Fin 0))"
    using m nn by blast+
  have r_div0: "returned (on_copy ?h 0 (\<lambda>h1 c. Vector_div h1 c (Fin 0)))
      = returned (div_fn ?h 0 (Fin 0))"
    using m by blast
  have d2: "isFinite (Fin 2) \<and> Fin 2 \<noteq> Fin 0"
    by simp
  have r_div2: "returned (on_copy ?h 0 (\<lambda>h1 c. Vector_div h1 c (Fin 2)))
      = \<lparr>x = x (?h ! 0) / Fin 2, y = y (?h ! 0) / Fin 2, z = z (?h ! 0) / Fin 2\<rparr>"
    "returned (div_fn ?h 0 (Fin 2))
      = \<lparr>x = x (?h ! 0) * (Fin 1 / Fin 2), y = y (?h ! 0) * (Fin 1 / Fin 2),
         z = z (?h ! 0) * (Fin 1 / Fin 2)\<rparr>"
    using m' d2 by blast+
  have g2: "Vector_mag ?h 2 = Fin 0 \<or> \<not> isFinite (Vector_mag ?h 2)"
    using m2 by blast
  have r_norm: "returned (on_copy ?h 2 (\<lambda>h1 c. Vector_normalize h1 c))
      = returned (normalize_fn ?h 2)"
    "returned (on_copy ?h 2 (\<lambda>h1 c. Vector_setMag h1 c (Fin 0)))
      = returned (setMag_fn ?h 2 (Fin 0))"
    using m'' g2 by blast+
  have c_angle: "on_copy ?h 0 (\<lambda>h1 c. Vector_angleBetween h1 c 1) = Fin (pi / 2)"
    using r_angle fn(3) by simp
  have c_add: "returned (on_copy ?h 0 (\<lambda>h1 c. Vector_add h1 c (Vec 1) None None))
      = \<lparr>x = Fin 1, y = Fin 1, z = Fin 0\<rparr>"
    by (simp only: r_add fn)
  have c_lerp: "returned (on_copy ?h 0 (\<lambda>h1 c. Vector_lerp h1 c 1 (Fin (1 / 2))))
      = \<lparr>x = Fin (1 / 2), y = Fin (1 / 2), z = Fin 0\<rparr>"
    by (simp only: r_lerp fn)
  have c_rot: "returned (on_copy ?h 0 (\<lambda>h1 c. Vector_rotate h1 c (Fin 0)))
      = \<lparr>x = Fin 1, y = Fin 0, z = Fin 0\<rparr>"
    "returned (on_copy ?h 0 (\<lambda>h1 c. Vector_rotateX h1 c (Fin 0)))
      = \<lparr>x = Fin 1, y = Fin 0, z = Fin 0\<rparr>"
    "returned (on_copy ?h 0 (\<lambda>h1 c. Vector_rotateY h1 c (Fin 0)))
      = \<lparr>x = Fin 1, y = Fin 0, z = Fin 0\<rparr>"
    by (simp_all only: r_rot fn)
  have c_div0: "returned (on_copy ?h 0 (\<lambda>h1 c. Vector_div h1 c (Fin 0)))
      = \<lparr>x = Fin 1, y = Fin 0, z = Fin 0\<rparr>"
    by (simp only: r_div0 fn)
  have c_div2: "returned (on_copy ?h 0 (\<lambda>h1 c. Vector_div h1 c (Fin 2)))
      = \<lparr>x = Fin (1 / 2), y = Fin 0, z = Fin 0\<rparr>"
    "returned (div_fn ?h 0 (Fin 2)) = \<lparr>x = Fin (1 / 2), y = Fin 0, z = Fin 0\<rparr>"
    unfolding r_div2 by (simp_all add: overflow_bounded)
  have c_norm: "returned (on_copy ?h 2 (\<lambda>h1 c. Vector_normalize h1 c))
      = \<lparr>x = Fin 0, y = Fin 0, z = Fin 0\<rparr>"
    "returned (on_copy ?h 2 (\<lambda>h1 c. Vector_setMag h1 c (Fin 0)))
      = \<lparr>x = Fin 0, y = Fin 0, z = Fin 0\<rparr>"
    by (simp_all only: r_norm fn)
  show ?thesis
    using v0 va vo al mg m2 fn(4,5,6) c_add c_lerp c_angle c_rot c_div0 c_div2 c_norm
    by blast
qed

end
